theory Spec2Isabelle
  imports Main
begin

section \<open>Data model of the challenge evaluation service\<close>

text \<open>
  The service \<open>ChallengeEvaluationService\<close> (file
  \<open>src/services/challenge_evaluation_service.py\<close>) works on four tables of rows
  (Python dictionaries): challenge hubs, participants, evaluations and evaluators.
  Each row is a record; a column that may hold SQL NULL (Python \<open>None\<close>) is an option.
  Identifiers are strings, timestamps are the seconds read from the clock.
\<close>

record hub =
  hub_id :: string
  hub_creator_id :: string
  hub_theme :: string
  hub_status :: string
  hub_challenge_channel_id :: "string option"
  hub_hub_channel_id :: "string option"
  hub_completed_at :: "nat option"

record participant =
  p_challenge_hub_id :: string
  p_user_id :: string

record evaluation =
  ev_id :: string
  ev_challenge_hub_id :: string
  ev_status :: string
  ev_deadline_at :: nat
  ev_evaluation_channel_id :: "string option"
  ev_true_votes :: nat
  ev_false_votes :: nat
  ev_github_repo_url :: "string option"
  ev_github_repo_public :: "int option"
  ev_admin_approval :: "string option"
  ev_final_result :: "string option"
  ev_completed_at :: "nat option"

record evaluator =
  j_id :: string
  j_evaluation_id :: string
  j_user_id :: string
  j_vote :: "string option"
  j_voted_at :: "nat option"

text \<open>
  The texts the service sends are Turkish sentences built with f-strings. A message is
  kept as a constructor that carries exactly the values the f-string interpolates.
  A \<open>reason\<close> is one bullet of the failure text built by \<open>finalize_evaluation\<close>.
\<close>

datatype reason =
    RejectedByAdmin
  | VotesNotMajority nat nat
  | RepoLinkMissing
  | RepoNotPublic

datatype result_text =
    ChallengeSuccess
  | ChallengeFailed "reason list"

datatype message =
    WelcomeMsg
  | JuryCallMsg string string
  | LeftJuryDM string
  | JoinedJuryDM string nat
  | JuryAssembledMsg string string string
  | JuryReadyDM
  | AdminApprovalRequest nat nat string string
  | RepoMissingMsg
  | RepoPrivateMsg
  | ResultMsg result_text nat nat bool
  | ForceResultMsg bool string

text \<open>
  Calls to the collaborators (chat gateway, channel directory, scheduler) are recorded
  in the order they are made.
\<close>

datatype effect =
    CreateChannel string
  | InviteUsers string "string list"
  | ArchiveChannel string
  | OpenConversation string
  | PostMessage string message
  | AddOnceJob string nat

record store =
  hubs :: "hub list"
  participants :: "participant list"
  evaluations :: "evaluation list"
  evaluators :: "evaluator list"
  effects :: "effect list"

text \<open>
  What a call reads from outside the store: the configured administrator
  (\<open>get_settings().admin_slack_id\<close>), the clock (\<open>clock e k\<close> is the k-th
  \<open>datetime.now()\<close> of the call), the identifiers drawn by \<open>uuid.uuid4()\<close>
  (\<open>uuid4 e k\<close> is the k-th one), and how the collaborators answer:
  \<open>create_channel e name\<close> is the id of the new channel or \<open>None\<close> when the call
  raises, \<open>open_conversation e u\<close> is the direct-message channel or \<open>None\<close> when the
  call raises or returns nothing, and \<open>raises e c\<close> says whether the call \<open>c\<close> raises.
\<close>

record env =
  admin_slack_id :: string
  clock :: "nat \<Rightarrow> nat"
  uuid4 :: "nat \<Rightarrow> string"
  create_channel :: "string \<Rightarrow> string option"
  open_conversation :: "string \<Rightarrow> string option"
  raises :: "effect \<Rightarrow> bool"

text \<open>The result envelope \<open>{"success": ..., "message": ..., "action": ...}\<close>.\<close>

datatype reply =
    EvaluationNotFound
  | ChallengeNotFound
  | AlreadyStarted
  | ChannelNotCreated
  | StartFailed
  | Started string
  | TeamOrAdminCannotJoin
  | LeftJury nat
  | JuryFull
  | JoinedJury nat bool
  | AdminCannotVote
  | CreatorCannotVote
  | ParticipantCannotVote
  | NotAnEvaluator
  | AlreadyVoted
  | VoteSaved string
  | OnlyAdmin
  | AlreadyCompleted
  | AdminApproved
  | AdminRejected
  | Unauthorized
  | ForceCompleted string

fun success :: "reply \<Rightarrow> bool" where
  "success (Started _) = True"
| "success (LeftJury _) = True"
| "success (JoinedJury _ _) = True"
| "success (VoteSaved _) = True"
| "success AdminApproved = True"
| "success AdminRejected = True"
| "success (ForceCompleted _) = True"
| "success _ = False"

text \<open>Python truthiness of an optional string: \<open>None\<close> and \<open>""\<close> are false.\<close>

fun truthy :: "string option \<Rightarrow> bool" where
  "truthy None = False"
| "truthy (Some s) = (s \<noteq> [])"

text \<open>
  \<open>str.lower()\<close> and \<open>str.upper()\<close> on the letters A to Z and a to z. A \<open>char\<close> is a
  byte, and every other byte is left as it is: on text outside ASCII, where Python also
  maps the cased letters of other alphabets, the two functions here differ from
  Python's. The words \<open>true\<close> and \<open>false\<close> and their spellings in upper case are
  ASCII.
\<close>

definition lower_char :: "char \<Rightarrow> char" where
  "lower_char c = (let n = (of_char c :: nat) in if 65 \<le> n \<and> n \<le> 90 then char_of (n + 32) else c)"

definition lower :: "string \<Rightarrow> string" where
  "lower v = map lower_char v"

definition upper_char :: "char \<Rightarrow> char" where
  "upper_char c = (let n = (of_char c :: nat) in if 97 \<le> n \<and> n \<le> 122 then char_of (n - 32) else c)"

definition upper :: "string \<Rightarrow> string" where
  "upper v = map upper_char v"

section \<open>The repositories\<close>

text \<open>
  Modelled from the spec: the repository classes (\<open>BaseRepository\<close>,
  \<open>ChallengeHubRepository\<close>, \<open>ChallengeParticipantRepository\<close>,
  \<open>ChallengeEvaluationRepository\<close>, \<open>ChallengeEvaluatorRepository\<close>) are not among
  the sources. The spec describes the record store as simple keyed CRUD with
  filter-based listing: \<open>get\<close> returns the row with the id, \<open>update\<close> overwrites the
  given columns of the rows with the id, \<open>create\<close> adds a row, \<open>delete\<close> removes the
  rows with the id, \<open>list\<close> returns the rows that match the filter.
\<close>

definition hub_get :: "store \<Rightarrow> string \<Rightarrow> hub option" where
  "hub_get s i = find (\<lambda>h. hub_id h = i) (hubs s)"

definition hub_update :: "store \<Rightarrow> string \<Rightarrow> (hub \<Rightarrow> hub) \<Rightarrow> store" where
  "hub_update s i f = s\<lparr>hubs := map (\<lambda>h. if hub_id h = i then f h else h) (hubs s)\<rparr>"

definition participant_list :: "store \<Rightarrow> string \<Rightarrow> participant list" where
  "participant_list s c = filter (\<lambda>p. p_challenge_hub_id p = c) (participants s)"

definition evaluation_get :: "store \<Rightarrow> string \<Rightarrow> evaluation option" where
  "evaluation_get s i = find (\<lambda>r. ev_id r = i) (evaluations s)"

definition evaluation_create :: "store \<Rightarrow> evaluation \<Rightarrow> store" where
  "evaluation_create s r = s\<lparr>evaluations := evaluations s @ [r]\<rparr>"

definition evaluation_update :: "store \<Rightarrow> string \<Rightarrow> (evaluation \<Rightarrow> evaluation) \<Rightarrow> store" where
  "evaluation_update s i f =
     s\<lparr>evaluations := map (\<lambda>r. if ev_id r = i then f r else r) (evaluations s)\<rparr>"

text \<open>
  Modelled from the spec: \<open>ChallengeEvaluationRepository.get_by_challenge\<close> is not
  among the sources; the spec's "an Evaluation already exists for the hub" is the first
  evaluation row whose owning hub is the given one.
\<close>

definition get_by_challenge :: "store \<Rightarrow> string \<Rightarrow> evaluation option" where
  "get_by_challenge s c = find (\<lambda>r. ev_challenge_hub_id r = c) (evaluations s)"

text \<open>
  Modelled from the spec: \<open>ChallengeEvaluationRepository.update_votes\<close> is not among
  the sources; it stores the evaluation's running vote tallies (true-count,
  false-count).
\<close>

definition update_votes :: "store \<Rightarrow> string \<Rightarrow> nat \<Rightarrow> nat \<Rightarrow> store" where
  "update_votes s i t f = evaluation_update s i (\<lambda>r. r\<lparr>ev_true_votes := t, ev_false_votes := f\<rparr>)"

definition evaluator_create :: "store \<Rightarrow> evaluator \<Rightarrow> store" where
  "evaluator_create s r = s\<lparr>evaluators := evaluators s @ [r]\<rparr>"

definition evaluator_update :: "store \<Rightarrow> string \<Rightarrow> (evaluator \<Rightarrow> evaluator) \<Rightarrow> store" where
  "evaluator_update s i f =
     s\<lparr>evaluators := map (\<lambda>r. if j_id r = i then f r else r) (evaluators s)\<rparr>"

definition evaluator_delete :: "store \<Rightarrow> string \<Rightarrow> store" where
  "evaluator_delete s i = s\<lparr>evaluators := filter (\<lambda>r. j_id r \<noteq> i) (evaluators s)\<rparr>"

text \<open>
  Modelled from the spec: the queries of \<open>ChallengeEvaluatorRepository\<close> are not among
  the sources. \<open>list_by_evaluation\<close> is the jury pool of an evaluation,
  \<open>count_evaluators\<close> its size, \<open>get_by_evaluation_and_user\<close> the membership row of a
  user in it, and \<open>get_votes\<close> the pair of tallies: the number of pool members whose
  vote is \<open>true\<close> and the number whose vote is \<open>false\<close> (the two boolean-like values).
\<close>

definition list_by_evaluation :: "store \<Rightarrow> string \<Rightarrow> evaluator list" where
  "list_by_evaluation s i = filter (\<lambda>r. j_evaluation_id r = i) (evaluators s)"

definition count_evaluators :: "store \<Rightarrow> string \<Rightarrow> nat" where
  "count_evaluators s i = length (list_by_evaluation s i)"

definition get_by_evaluation_and_user :: "store \<Rightarrow> string \<Rightarrow> string \<Rightarrow> evaluator option" where
  "get_by_evaluation_and_user s i u =
     find (\<lambda>r. j_evaluation_id r = i \<and> j_user_id r = u) (evaluators s)"

definition get_votes :: "store \<Rightarrow> string \<Rightarrow> nat \<times> nat" where
  "get_votes s i =
     (length (filter (\<lambda>r. j_vote r = Some ''true'') (list_by_evaluation s i)),
      length (filter (\<lambda>r. j_vote r = Some ''false'') (list_by_evaluation s i)))"

section \<open>Calls to the collaborators\<close>

definition call :: "effect \<Rightarrow> store \<Rightarrow> store" where
  "call c s = s\<lparr>effects := effects s @ [c]\<rparr>"

text \<open>\<open>if channel: try: post_message(channel, m) except: log\<close>\<close>

definition post_if :: "string option \<Rightarrow> message \<Rightarrow> store \<Rightarrow> store" where
  "post_if ch m s = (case ch of Some c \<Rightarrow> (if c \<noteq> [] then call (PostMessage c m) s else s) | None \<Rightarrow> s)"

section \<open>finalize_evaluation\<close>

text \<open>
  The decision of \<open>finalize_evaluation\<close> (the \<open>if\<close>/\<open>elif\<close>/\<open>else\<close> that sets
  \<open>final_result\<close> and \<open>result_message\<close>).
\<close>

definition decide :: "string option \<Rightarrow> nat \<Rightarrow> nat \<Rightarrow> bool \<Rightarrow> string option \<Rightarrow> string \<times> result_text" where
  "decide admin_approval true_votes false_votes github_public github_url =
     (if admin_approval = Some ''rejected'' then (''failed'', ChallengeFailed [RejectedByAdmin])
      else if true_votes > false_votes \<and> github_public \<and> truthy github_url
        then (''success'', ChallengeSuccess)
      else (''failed'', ChallengeFailed
             ((if true_votes \<le> false_votes then [VotesNotMajority true_votes false_votes] else [])
              @ (if \<not> truthy github_url then [RepoLinkMissing]
                 else if \<not> github_public then [RepoNotPublic] else []))))"

definition finalize_evaluation :: "env \<Rightarrow> store \<Rightarrow> string \<Rightarrow> string option \<Rightarrow> store" where
  "finalize_evaluation e s evaluation_id admin_approval =
     (case evaluation_get s evaluation_id of
        None \<Rightarrow> s
      | Some evaluation \<Rightarrow>
          if ev_status evaluation \<noteq> ''evaluating'' then s
          else
            let votes = get_votes s evaluation_id;
                true_votes = fst votes;
                false_votes = snd votes;
                github_public = (ev_github_repo_public evaluation = Some 1);
                github_url = ev_github_repo_url evaluation;
                d = decide admin_approval true_votes false_votes github_public github_url;
                final_result = fst d;
                result_message = ResultMsg (snd d) true_votes false_votes github_public;
                s1 = evaluation_update s evaluation_id
                       (\<lambda>r. r\<lparr>ev_status := ''completed'',
                               ev_final_result := Some final_result,
                               ev_completed_at := Some (clock e 0)\<rparr>);
                challenge_id = ev_challenge_hub_id evaluation;
                s2 = (case hub_get s1 challenge_id of
                        None \<Rightarrow> s1
                      | Some challenge \<Rightarrow>
                          post_if (hub_challenge_channel_id challenge) result_message
                            (post_if (hub_hub_channel_id challenge) result_message
                               (hub_update s1 challenge_id
                                  (\<lambda>h. h\<lparr>hub_status := ''completed'',
                                          hub_completed_at := Some (clock e 1)\<rparr>))))
            in (case ev_evaluation_channel_id evaluation of
                  None \<Rightarrow> s2
                | Some c \<Rightarrow> if c \<noteq> [] then call (ArchiveChannel c) s2 else s2))"

section \<open>admin_finalize_evaluation and force_complete_evaluation\<close>

definition admin_finalize_evaluation :: "env \<Rightarrow> store \<Rightarrow> string \<Rightarrow> string \<Rightarrow> string \<Rightarrow> reply \<times> store" where
  "admin_finalize_evaluation e s evaluation_id admin_user_id approval =
     (if admin_user_id \<noteq> admin_slack_id e then (OnlyAdmin, s)
      else case evaluation_get s evaluation_id of
        None \<Rightarrow> (EvaluationNotFound, s)
      | Some evaluation \<Rightarrow>
          if ev_status evaluation = ''completed'' then (AlreadyCompleted, s)
          else
            let s1 = evaluation_update s evaluation_id (\<lambda>r. r\<lparr>ev_admin_approval := Some approval\<rparr>);
                s2 = finalize_evaluation e s1 evaluation_id (Some approval)
            in (if approval = ''approved'' then AdminApproved else AdminRejected, s2))"

text \<open>
  In \<open>force_complete_evaluation\<close> the message and the archive call share one
  \<open>try\<close>: when posting raises, the channel is not archived.
\<close>

definition force_complete_evaluation :: "env \<Rightarrow> store \<Rightarrow> string \<Rightarrow> string \<Rightarrow> string \<Rightarrow> reply \<times> store" where
  "force_complete_evaluation e s evaluation_id admin_user_id result =
     (if admin_user_id \<noteq> admin_slack_id e then (Unauthorized, s)
      else case evaluation_get s evaluation_id of
        None \<Rightarrow> (EvaluationNotFound, s)
      | Some evaluation \<Rightarrow>
          let final_result = result;
              result_message = ForceResultMsg (result = ''success'') admin_user_id;
              s1 = evaluation_update s evaluation_id
                     (\<lambda>r. r\<lparr>ev_status := ''completed'',
                             ev_final_result := Some final_result,
                             ev_completed_at := Some (clock e 0)\<rparr>);
              challenge_id = ev_challenge_hub_id evaluation;
              s2 = hub_update s1 challenge_id
                     (\<lambda>h. h\<lparr>hub_status := ''completed'', hub_completed_at := Some (clock e 1)\<rparr>);
              s3 = (case ev_evaluation_channel_id evaluation of
                      None \<Rightarrow> s2
                    | Some c \<Rightarrow>
                        if c = [] then s2
                        else
                          let s' = call (PostMessage c result_message) s2
                          in if raises e (PostMessage c result_message) then s'
                             else call (ArchiveChannel c) s')
          in (ForceCompleted (upper result), s3))"

section \<open>start_evaluation\<close>

text \<open>
  The users invited to the evaluation channel: the creator, the participants and the
  administrator, each once. The source collects them in a \<open>set\<close> and passes
  \<open>list(all_user_ids)\<close>, whose order is the set's own; the list here is one order of
  the same users.
\<close>

definition all_user_ids :: "env \<Rightarrow> store \<Rightarrow> hub \<Rightarrow> string \<Rightarrow> string list" where
  "all_user_ids e s challenge challenge_id =
     remdups ((if hub_creator_id challenge \<noteq> [] then [hub_creator_id challenge] else [])
              @ map p_user_id (participant_list s challenge_id)
              @ (if admin_slack_id e \<noteq> [] then [admin_slack_id e] else []))"

text \<open>
  The scheduler call and the last message are not inside a \<open>try\<close> of their own:
  when one raises, the outer handler returns the generic failure.
\<close>

definition start_evaluation :: "env \<Rightarrow> store \<Rightarrow> string \<Rightarrow> string \<Rightarrow> reply \<times> store" where
  "start_evaluation e s challenge_id trigger_channel_id =
     (case hub_get s challenge_id of
        None \<Rightarrow> (ChallengeNotFound, s)
      | Some challenge \<Rightarrow>
          (case get_by_challenge s challenge_id of
             Some existing \<Rightarrow> (AlreadyStarted, s)
           | None \<Rightarrow>
               let evaluation_id = uuid4 e 0;
                   deadline = clock e 0 + 48 * 3600;
                   s1 = evaluation_create s
                          \<lparr>ev_id = evaluation_id, ev_challenge_hub_id = challenge_id,
                           ev_status = ''pending'', ev_deadline_at = deadline,
                           ev_evaluation_channel_id = None, ev_true_votes = 0, ev_false_votes = 0,
                           ev_github_repo_url = None, ev_github_repo_public = Some 0,
                           ev_admin_approval = None, ev_final_result = None,
                           ev_completed_at = None\<rparr>;
                   channel_name = ''challenge-evaluation-'' @ take 8 (uuid4 e 1);
                   s2 = call (CreateChannel channel_name) s1
               in (case create_channel e channel_name of
                     None \<Rightarrow> (ChannelNotCreated, s2)
                   | Some eval_channel_id \<Rightarrow>
                       let s3 = evaluation_update s2 evaluation_id
                                  (\<lambda>r. r\<lparr>ev_evaluation_channel_id := Some eval_channel_id,
                                          ev_status := ''evaluating''\<rparr>);
                           s4 = call (InviteUsers eval_channel_id (all_user_ids e s3 challenge challenge_id)) s3;
                           job = AddOnceJob (''finalize_evaluation_'' @ evaluation_id) (48 * 60);
                           s5 = call job s4
                       in if raises e job then (StartFailed, s5)
                          else
                            let s6 = call (PostMessage eval_channel_id WelcomeMsg) s5;
                                target_channel = (if truthy (hub_hub_channel_id challenge)
                                                  then the (hub_hub_channel_id challenge)
                                                  else trigger_channel_id);
                                announce = PostMessage target_channel
                                             (JuryCallMsg (hub_theme challenge) evaluation_id);
                                s7 = call announce s6
                            in if raises e announce then (StartFailed, s7)
                               else (Started evaluation_id, s7))))"

section \<open>toggle_juror\<close>

text \<open>
  \<open>try: dm = open_conversation([user]); if dm: post_message(dm, text) except: pass\<close>
\<close>

definition dm :: "env \<Rightarrow> string \<Rightarrow> message \<Rightarrow> store \<Rightarrow> store" where
  "dm e user m s =
     (let s1 = call (OpenConversation user) s
      in case open_conversation e user of None \<Rightarrow> s1 | Some c \<Rightarrow> call (PostMessage c m) s1)"

text \<open>
  The batch invite of the full jury. The announcement names \<open>juror_ids[0]\<close>,
  \<open>juror_ids[1]\<close> and \<open>juror_ids[2]\<close>: with fewer than three jurors this raises
  inside the \<open>try\<close> and the rest of the block is skipped.
\<close>

definition batch_invite :: "env \<Rightarrow> store \<Rightarrow> evaluation \<Rightarrow> string \<Rightarrow> store" where
  "batch_invite e s evaluation evaluation_id =
     (let juror_ids = map j_user_id (list_by_evaluation s evaluation_id)
      in case ev_evaluation_channel_id evaluation of
           None \<Rightarrow> s
         | Some c \<Rightarrow>
             if c = [] then s
             else
               let s1 = call (InviteUsers c juror_ids) s
               in if raises e (InviteUsers c juror_ids) then s1
                  else (case juror_ids of
                          j0 # j1 # j2 # _ \<Rightarrow>
                            let s2 = call (PostMessage c (JuryAssembledMsg j0 j1 j2)) s1
                            in if raises e (PostMessage c (JuryAssembledMsg j0 j1 j2)) then s2
                               else fold (\<lambda>j. dm e j JuryReadyDM) juror_ids s2
                        | _ \<Rightarrow> s1))"

definition toggle_juror :: "env \<Rightarrow> store \<Rightarrow> string \<Rightarrow> string \<Rightarrow> reply \<times> store" where
  "toggle_juror e s evaluation_id user_id =
     (case evaluation_get s evaluation_id of
        None \<Rightarrow> (EvaluationNotFound, s)
      | Some evaluation \<Rightarrow>
          (case hub_get s (ev_challenge_hub_id evaluation) of
             None \<Rightarrow> (ChallengeNotFound, s)
           | Some challenge \<Rightarrow>
               let creator_id = hub_creator_id challenge;
                   participant_ids = map p_user_id (participant_list s (hub_id challenge))
               in if user_id = admin_slack_id e \<or> user_id = creator_id \<or> user_id \<in> set participant_ids
                  then (TeamOrAdminCannotJoin, s)
                  else
                    (case get_by_evaluation_and_user s evaluation_id user_id of
                       Some existing_juror \<Rightarrow>
                         let s1 = evaluator_delete s (j_id existing_juror);
                             count = count_evaluators s1 evaluation_id;
                             s2 = dm e user_id (LeftJuryDM (hub_theme challenge)) s1
                         in (LeftJury count, s2)
                     | None \<Rightarrow>
                         let current_count = count_evaluators s evaluation_id
                         in if current_count \<ge> 3 then (JuryFull, s)
                            else
                              let juror_id = uuid4 e 0;
                                  s1 = evaluator_create s
                                         \<lparr>j_id = juror_id, j_evaluation_id = evaluation_id,
                                          j_user_id = user_id, j_vote = None, j_voted_at = None\<rparr>;
                                  current_count = current_count + 1;
                                  s2 = dm e user_id (JoinedJuryDM (hub_theme challenge) current_count) s1;
                                  s3 = (if current_count \<ge> 3
                                        then batch_invite e s2 evaluation evaluation_id else s2)
                              in (JoinedJury current_count (current_count \<ge> 3), s3))))"

section \<open>submit_vote\<close>

definition submit_vote :: "env \<Rightarrow> store \<Rightarrow> string \<Rightarrow> string \<Rightarrow> string \<Rightarrow> reply \<times> store" where
  "submit_vote e s evaluation_id user_id vote =
     (case evaluation_get s evaluation_id of
        None \<Rightarrow> (EvaluationNotFound, s)
      | Some evaluation \<Rightarrow>
          (case hub_get s (ev_challenge_hub_id evaluation) of
             None \<Rightarrow> (ChallengeNotFound, s)
           | Some challenge \<Rightarrow>
               if user_id = admin_slack_id e then (AdminCannotVote, s)
               else if user_id = hub_creator_id challenge then (CreatorCannotVote, s)
               else if user_id \<in> set (map p_user_id (participant_list s (hub_id challenge)))
                 then (ParticipantCannotVote, s)
               else
                 (case get_by_evaluation_and_user s evaluation_id user_id of
                    None \<Rightarrow> (NotAnEvaluator, s)
                  | Some evaluator \<Rightarrow>
                      if truthy (j_vote evaluator) then (AlreadyVoted, s)
                      else
                        let s1 = evaluator_update s (j_id evaluator)
                                   (\<lambda>r. r\<lparr>j_vote := Some (lower vote),
                                           j_voted_at := Some (clock e 0)\<rparr>);
                            votes = get_votes s1 evaluation_id;
                            s2 = update_votes s1 evaluation_id (fst votes) (snd votes);
                            total_votes = fst votes + snd votes;
                            github_url = ev_github_repo_url evaluation;
                            github_public = ev_github_repo_public evaluation;
                            eval_channel_id = ev_evaluation_channel_id evaluation;
                            s3 = (if total_votes \<ge> 3
                                  then
                                    (if truthy github_url \<and> github_public = Some 1
                                     then post_if eval_channel_id
                                            (AdminApprovalRequest (fst votes) (snd votes)
                                               (the github_url) evaluation_id) s2
                                     else post_if eval_channel_id
                                            (if \<not> truthy github_url then RepoMissingMsg
                                             else RepoPrivateMsg) s2)
                                  else s2)
                        in (VoteSaved vote, s3))))"

section \<open>Auxiliary notions used to state the properties\<close>

text \<open>
  The collaborator calls made by a run of \<open>finalize_evaluation\<close> that passes the
  status guard, in order: the result message to the hub channel and to the challenge
  channel (when the hub row exists and names them), then the archive call for the
  evaluation channel (when the evaluation row names one). \<open>ev\<close> is the evaluation row
  read at the start of the run, \<open>h\<close> the hub row it owns, \<open>m\<close> the result message.
\<close>

definition finalize_calls :: "evaluation \<Rightarrow> hub option \<Rightarrow> message \<Rightarrow> effect list" where
  "finalize_calls ev h m =
     (case h of
        None \<Rightarrow> []
      | Some c \<Rightarrow>
          (if truthy (hub_hub_channel_id c) then [PostMessage (the (hub_hub_channel_id c)) m] else [])
          @ (if truthy (hub_challenge_channel_id c)
             then [PostMessage (the (hub_challenge_channel_id c)) m] else []))
     @ (if truthy (ev_evaluation_channel_id ev)
        then [ArchiveChannel (the (ev_evaluation_channel_id ev))] else [])"

text \<open>
  A concrete environment and store on which the properties are exercised: hub \<open>H1\<close>
  created by \<open>U1\<close> with participants \<open>U1\<close> and \<open>U2\<close>, its evaluation \<open>E1\<close> with a
  public repository and a jury of three, two of whom have voted \<open>true\<close>; and a second
  hub \<open>H2\<close> that has no evaluation yet.
\<close>

definition demo_env :: env where
  "demo_env =
     \<lparr>admin_slack_id = ''ADMIN'', clock = (\<lambda>k. 1000 + k),
      uuid4 = (\<lambda>k. if k = 0 then ''id-a'' else ''id-b''),
      create_channel = (\<lambda>n. Some ''CNEW''),
      open_conversation = (\<lambda>u. Some (''D'' @ u)),
      raises = (\<lambda>c. False)\<rparr>"

definition demo_hub :: hub where
  "demo_hub =
     \<lparr>hub_id = ''H1'', hub_creator_id = ''U1'', hub_theme = ''AI Chatbot'',
      hub_status = ''evaluating'', hub_challenge_channel_id = Some ''CTEAM'',
      hub_hub_channel_id = Some ''CHUB'', hub_completed_at = None\<rparr>"

definition demo_hub2 :: hub where
  "demo_hub2 =
     \<lparr>hub_id = ''H2'', hub_creator_id = ''U5'', hub_theme = ''Web App'',
      hub_status = ''active'', hub_challenge_channel_id = Some ''CTEAM2'',
      hub_hub_channel_id = None, hub_completed_at = None\<rparr>"

definition demo_evaluation :: evaluation where
  "demo_evaluation =
     \<lparr>ev_id = ''E1'', ev_challenge_hub_id = ''H1'', ev_status = ''evaluating'',
      ev_deadline_at = 900, ev_evaluation_channel_id = Some ''CEVAL'',
      ev_true_votes = 2, ev_false_votes = 0,
      ev_github_repo_url = Some ''https://github.com/u/r'', ev_github_repo_public = Some 1,
      ev_admin_approval = None, ev_final_result = None, ev_completed_at = None\<rparr>"

definition demo_juror :: "string \<Rightarrow> string \<Rightarrow> string option \<Rightarrow> evaluator" where
  "demo_juror i u v =
     \<lparr>j_id = i, j_evaluation_id = ''E1'', j_user_id = u, j_vote = v,
      j_voted_at = (case v of None \<Rightarrow> None | Some _ \<Rightarrow> Some 950)\<rparr>"

definition demo_store :: store where
  "demo_store =
     \<lparr>hubs = [demo_hub, demo_hub2],
      participants = [\<lparr>p_challenge_hub_id = ''H1'', p_user_id = ''U1''\<rparr>,
                      \<lparr>p_challenge_hub_id = ''H1'', p_user_id = ''U2''\<rparr>,
                      \<lparr>p_challenge_hub_id = ''H2'', p_user_id = ''U5''\<rparr>],
      evaluations = [demo_evaluation],
      evaluators = [demo_juror ''K1'' ''J1'' (Some ''true''),
                    demo_juror ''K2'' ''J2'' (Some ''true''),
                    demo_juror ''K3'' ''J3'' None],
      effects = []\<rparr>"

text \<open>The same store after the evaluation has been completed with result \<open>success\<close>.\<close>

definition demo_completed :: store where
  "demo_completed =
     demo_store\<lparr>evaluations := [demo_evaluation\<lparr>ev_status := ''completed'',
                                  ev_final_result := Some ''success'', ev_completed_at := Some 990\<rparr>],
                hubs := [demo_hub\<lparr>hub_status := ''completed'', hub_completed_at := Some 991\<rparr>,
                         demo_hub2]\<rparr>"

text \<open>An environment in which the channel directory is down: creating a channel raises.\<close>

definition demo_env_down :: env where
  "demo_env_down = demo_env\<lparr>create_channel := (\<lambda>n. None)\<rparr>"

text \<open>
  The invariant of the evaluator table named in the data model: the pair
  (evaluation, user) is unique.
\<close>

definition unique_membership :: "store \<Rightarrow> bool" where
  "unique_membership s = distinct (map (\<lambda>r. (j_evaluation_id r, j_user_id r)) (evaluators s))"

text \<open>
  A user is barred from the jury of an evaluation when they are the configured
  administrator, the creator of the owning hub, or a participant of that hub.
\<close>

definition ineligible :: "env \<Rightarrow> store \<Rightarrow> hub \<Rightarrow> string \<Rightarrow> bool" where
  "ineligible e s h u =
     (u = admin_slack_id e \<or> u = hub_creator_id h
      \<or> (\<exists>p \<in> set (participants s). p_challenge_hub_id p = hub_id h \<and> p_user_id p = u))"

text \<open>The store \<open>demo_store\<close> before the third juror joined.\<close>

definition demo_two_jurors :: store where
  "demo_two_jurors = demo_store\<lparr>evaluators := take 2 (evaluators demo_store)\<rparr>"

text \<open>The evaluator row that \<open>toggle_juror\<close> creates for a joining user.\<close>

definition new_juror :: "env \<Rightarrow> string \<Rightarrow> string \<Rightarrow> evaluator" where
  "new_juror e evaluation_id user_id =
     \<lparr>j_id = uuid4 e 0, j_evaluation_id = evaluation_id, j_user_id = user_id,
      j_vote = None, j_voted_at = None\<rparr>"

text \<open>What \<open>submit_vote\<close> writes into the evaluator rows with the given id.\<close>

definition cast :: "env \<Rightarrow> string \<Rightarrow> string \<Rightarrow> evaluator \<Rightarrow> evaluator" where
  "cast e k v r = (if j_id r = k then r\<lparr>j_vote := Some (lower v), j_voted_at := Some (clock e 0)\<rparr> else r)"

text \<open>
  The number of evaluator rows of evaluation \<open>i\<close>, other than the rows with id \<open>k\<close>,
  whose vote is \<open>w\<close>.
\<close>

definition votes_of_others :: "store \<Rightarrow> string \<Rightarrow> string \<Rightarrow> string \<Rightarrow> nat" where
  "votes_of_others s i k w =
     length (filter (\<lambda>r. j_evaluation_id r = i \<and> j_id r \<noteq> k \<and> j_vote r = Some w) (evaluators s))"

text \<open>
  The join branch of \<open>toggle_juror\<close> cut where the source reads the pool size. The first
  part is every statement up to and including \<open>current_count = count_evaluators(...)\<close>:
  it only reads the store, and yields the rows and the count it has read when the call
  reaches the join branch (and nothing when the call returns earlier or takes the leave
  branch). The second part is the rest of the branch, from \<open>if current_count >= 3\<close> to
  the \<open>return\<close>: it works with the values read before, whatever the store has become,
  and touches the store in \<open>create\<close> and \<open>list_by_evaluation\<close> only.
\<close>

definition join_reads :: "env \<Rightarrow> store \<Rightarrow> string \<Rightarrow> string \<Rightarrow> (evaluation \<times> hub \<times> nat) option" where
  "join_reads e s evaluation_id user_id =
     (case evaluation_get s evaluation_id of
        None \<Rightarrow> None
      | Some evaluation \<Rightarrow>
          (case hub_get s (ev_challenge_hub_id evaluation) of
             None \<Rightarrow> None
           | Some challenge \<Rightarrow>
               let creator_id = hub_creator_id challenge;
                   participant_ids = map p_user_id (participant_list s (hub_id challenge))
               in if user_id = admin_slack_id e \<or> user_id = creator_id \<or> user_id \<in> set participant_ids
                  then None
                  else
                    (case get_by_evaluation_and_user s evaluation_id user_id of
                       Some existing_juror \<Rightarrow> None
                     | None \<Rightarrow> Some (evaluation, challenge, count_evaluators s evaluation_id))))"

definition join_after_count ::
  "env \<Rightarrow> store \<Rightarrow> evaluation \<Rightarrow> hub \<Rightarrow> string \<Rightarrow> string \<Rightarrow> nat \<Rightarrow> reply \<times> store" where
  "join_after_count e s evaluation challenge evaluation_id user_id current_count =
     (if current_count \<ge> 3 then (JuryFull, s)
      else
        let juror_id = uuid4 e 0;
            s1 = evaluator_create s
                   \<lparr>j_id = juror_id, j_evaluation_id = evaluation_id,
                    j_user_id = user_id, j_vote = None, j_voted_at = None\<rparr>;
            current_count = current_count + 1;
            s2 = dm e user_id (JoinedJuryDM (hub_theme challenge) current_count) s1;
            s3 = (if current_count \<ge> 3
                  then batch_invite e s2 evaluation evaluation_id else s2)
        in (JoinedJury current_count (current_count \<ge> 3), s3))"

text \<open>A second caller's environment: it draws another identifier.\<close>

definition demo_env2 :: env where
  "demo_env2 = demo_env\<lparr>uuid4 := (\<lambda>k. ''id-c'')\<rparr>"

section \<open>Properties of the store operations\<close>

lemma call_fields [simp]:
  "hubs (call c s) = hubs s" "participants (call c s) = participants s"
  "evaluations (call c s) = evaluations s" "evaluators (call c s) = evaluators s"
  "effects (call c s) = effects s @ [c]"
  by (simp_all add: call_def)

lemma post_if_fields [simp]:
  "hubs (post_if ch m s) = hubs s" "participants (post_if ch m s) = participants s"
  "evaluations (post_if ch m s) = evaluations s" "evaluators (post_if ch m s) = evaluators s"
  by (simp_all add: post_if_def split: option.splits)

lemma post_if_effects:
  "effects (post_if ch m s) = effects s @ (if truthy ch then [PostMessage (the ch) m] else [])"
  by (cases ch) (simp_all add: post_if_def)

lemma hub_update_fields [simp]:
  "participants (hub_update s i f) = participants s"
  "evaluations (hub_update s i f) = evaluations s" "evaluators (hub_update s i f) = evaluators s"
  "effects (hub_update s i f) = effects s"
  by (simp_all add: hub_update_def)

lemma evaluation_update_fields [simp]:
  "hubs (evaluation_update s i f) = hubs s"
  "participants (evaluation_update s i f) = participants s"
  "evaluators (evaluation_update s i f) = evaluators s"
  "effects (evaluation_update s i f) = effects s"
  by (simp_all add: evaluation_update_def)

lemma find_map_same:
  assumes "\<And>r. key (f r) = key r"
  shows "find (\<lambda>r. key r = i) (map (\<lambda>r. if key r = j then f r else r) xs)
         = (if i = j then map_option f (find (\<lambda>r. key r = i) xs) else find (\<lambda>r. key r = i) xs)"
  by (induction xs) (auto simp: assms)

lemma evaluation_get_update:
  assumes "\<And>r. ev_id (f r) = ev_id r"
  shows "evaluation_get (evaluation_update s j f) i
         = (if i = j then map_option f (evaluation_get s i) else evaluation_get s i)"
  unfolding evaluation_get_def evaluation_update_def
  using find_map_same[of ev_id f i j "evaluations s", OF assms] by simp

lemma hub_get_update:
  assumes "\<And>r. hub_id (f r) = hub_id r"
  shows "hub_get (hub_update s j f) i
         = (if i = j then map_option f (hub_get s i) else hub_get s i)"
  unfolding hub_get_def hub_update_def
  using find_map_same[of hub_id f i j "hubs s", OF assms] by simp

lemma evaluation_get_cong: "evaluations s = evaluations s' \<Longrightarrow> evaluation_get s i = evaluation_get s' i"
  by (simp add: evaluation_get_def)

lemma hub_get_cong: "hubs s = hubs s' \<Longrightarrow> hub_get s i = hub_get s' i"
  by (simp add: hub_get_def)

lemma finalize_evaluation_run:
  fixes approval :: "string option"
  assumes ev: "evaluation_get s eid = Some ev" and st: "ev_status ev = ''evaluating''"
  shows "evaluations (finalize_evaluation e s eid approval)
           = map (\<lambda>r. if ev_id r = eid then r\<lparr>ev_status := ''completed'',
                     ev_final_result := Some (fst (decide approval (fst (get_votes s eid)) (snd (get_votes s eid))
                         (ev_github_repo_public ev = Some 1) (ev_github_repo_url ev))),
                     ev_completed_at := Some (clock e 0)\<rparr> else r) (evaluations s)"
    and "hubs (finalize_evaluation e s eid approval)
           = map (\<lambda>h. if hub_id h = ev_challenge_hub_id ev then h\<lparr>hub_status := ''completed'',
                               hub_completed_at := Some (clock e 1)\<rparr> else h) (hubs s)"
    and "evaluators (finalize_evaluation e s eid approval) = evaluators s"
    and "participants (finalize_evaluation e s eid approval) = participants s"
    and "effects (finalize_evaluation e s eid approval)
           = effects s @ finalize_calls ev (hub_get s (ev_challenge_hub_id ev))
               (ResultMsg (snd (decide approval (fst (get_votes s eid)) (snd (get_votes s eid))
                         (ev_github_repo_public ev = Some 1) (ev_github_repo_url ev)))
                  (fst (get_votes s eid)) (snd (get_votes s eid)) (ev_github_repo_public ev = Some 1))"
proof -
  have hg: "\<And>f. hub_get (evaluation_update s eid f) (ev_challenge_hub_id ev) = hub_get s (ev_challenge_hub_id ev)"
    by (rule hub_get_cong) simp
  show "evaluations (finalize_evaluation e s eid approval)
           = map (\<lambda>r. if ev_id r = eid then r\<lparr>ev_status := ''completed'',
                     ev_final_result := Some (fst (decide approval (fst (get_votes s eid)) (snd (get_votes s eid))
                         (ev_github_repo_public ev = Some 1) (ev_github_repo_url ev))),
                     ev_completed_at := Some (clock e 0)\<rparr> else r) (evaluations s)"
    using ev st unfolding finalize_evaluation_def Let_def
    by (simp add: hg split: option.splits) (simp add: evaluation_update_def)
  show "hubs (finalize_evaluation e s eid approval)
           = map (\<lambda>h. if hub_id h = ev_challenge_hub_id ev then h\<lparr>hub_status := ''completed'',
                               hub_completed_at := Some (clock e 1)\<rparr> else h) (hubs s)"
    using ev st unfolding finalize_evaluation_def Let_def
    apply (simp add: hg split: option.splits)
    apply (auto simp: hub_update_def hub_get_def find_None_iff intro!: map_idI[symmetric])
    done
  show "evaluators (finalize_evaluation e s eid approval) = evaluators s"
    using ev st unfolding finalize_evaluation_def Let_def
    by (simp add: hg split: option.splits)
  show "participants (finalize_evaluation e s eid approval) = participants s"
    using ev st unfolding finalize_evaluation_def Let_def
    by (simp add: hg split: option.splits)
  show "effects (finalize_evaluation e s eid approval)
           = effects s @ finalize_calls ev (hub_get s (ev_challenge_hub_id ev))
               (ResultMsg (snd (decide approval (fst (get_votes s eid)) (snd (get_votes s eid))
                         (ev_github_repo_public ev = Some 1) (ev_github_repo_url ev)))
                  (fst (get_votes s eid)) (snd (get_votes s eid)) (ev_github_repo_public ev = Some 1))"
    using ev st unfolding finalize_evaluation_def Let_def finalize_calls_def
    by (simp add: hg post_if_effects split: option.splits)
qed


section \<open>The decision rule of finalize_evaluation\<close>

lemma evaluation_get_finalized:
  assumes "evaluation_get s eid = Some ev" and "ev_status ev = ''evaluating''"
  shows "evaluation_get (finalize_evaluation e s eid approval) eid
         = Some (ev\<lparr>ev_status := ''completed'',
                   ev_final_result := Some (fst (decide approval (fst (get_votes s eid))
                       (snd (get_votes s eid)) (ev_github_repo_public ev = Some 1)
                       (ev_github_repo_url ev))),
                   ev_completed_at := Some (clock e 0)\<rparr>)"
proof -
  have "evaluation_get (finalize_evaluation e s eid approval) eid
        = find (\<lambda>r. ev_id r = eid) (evaluations (finalize_evaluation e s eid approval))"
    by (simp add: evaluation_get_def)
  also have "\<dots> = map_option (\<lambda>r. r\<lparr>ev_status := ''completed'',
                   ev_final_result := Some (fst (decide approval (fst (get_votes s eid))
                       (snd (get_votes s eid)) (ev_github_repo_public ev = Some 1)
                       (ev_github_repo_url ev))),
                   ev_completed_at := Some (clock e 0)\<rparr>) (find (\<lambda>r. ev_id r = eid) (evaluations s))"
    unfolding finalize_evaluation_run(1)[OF assms]
    by (subst find_map_same) simp_all
  finally show ?thesis
    using assms(1) by (simp add: evaluation_get_def)
qed

text \<open>
  C1. For an evaluation whose status is \<open>evaluating\<close>, \<open>finalize_evaluation\<close> completes
  the row and decides by priority: an administrator's \<open>rejected\<close> gives \<open>failed\<close> with
  the single reason "rejected by administrator"; otherwise more \<open>true\<close> than \<open>false\<close>
  votes together with a present repository link whose verified-public flag is set gives
  \<open>success\<close>; otherwise the result is \<open>failed\<close> and the reasons list holds the
  insufficient-votes reason exactly when the \<open>true\<close> votes do not exceed the \<open>false\<close>
  votes, the missing-link reason exactly when no link is present, and the not-public
  reason exactly when a link is present but not verified public. The decided text is the
  one carried by every result message the run posts.
\<close>

theorem finalize_evaluation_priority_rule:
  assumes "evaluation_get s eid = Some ev"
      and "ev_status ev = ''evaluating''"
      and "get_votes s eid = (t, f)"
  shows "\<exists>ev' txt.
           evaluation_get (finalize_evaluation e s eid approval) eid = Some ev'
         \<and> ev_status ev' = ''completed''
         \<and> effects (finalize_evaluation e s eid approval)
             = effects s @ finalize_calls ev (hub_get s (ev_challenge_hub_id ev))
                 (ResultMsg txt t f (ev_github_repo_public ev = Some 1))
         \<and> (if approval = Some ''rejected''
              then ev_final_result ev' = Some ''failed'' \<and> txt = ChallengeFailed [RejectedByAdmin]
            else if f < t \<and> truthy (ev_github_repo_url ev) \<and> ev_github_repo_public ev = Some 1
              then ev_final_result ev' = Some ''success'' \<and> txt = ChallengeSuccess
            else ev_final_result ev' = Some ''failed''
               \<and> (\<exists>rs. txt = ChallengeFailed rs
                    \<and> (VotesNotMajority t f \<in> set rs \<longleftrightarrow> t \<le> f)
                    \<and> (RepoLinkMissing \<in> set rs \<longleftrightarrow> \<not> truthy (ev_github_repo_url ev))
                    \<and> (RepoNotPublic \<in> set rs
                         \<longleftrightarrow> truthy (ev_github_repo_url ev) \<and> ev_github_repo_public ev \<noteq> Some 1)
                    \<and> RejectedByAdmin \<notin> set rs \<and> rs \<noteq> []))"
proof -
  define d where "d = decide approval t f (ev_github_repo_public ev = Some 1) (ev_github_repo_url ev)"
  define ev' where "ev' = ev\<lparr>ev_status := ''completed'', ev_final_result := Some (fst d),
                  ev_completed_at := Some (clock e 0)\<rparr>"
  have get: "evaluation_get (finalize_evaluation e s eid approval) eid = Some ev'"
    using evaluation_get_finalized[OF assms(1,2)] assms(3) by (simp add: ev'_def d_def)
  have eff: "effects (finalize_evaluation e s eid approval)
             = effects s @ finalize_calls ev (hub_get s (ev_challenge_hub_id ev))
                 (ResultMsg (snd d) t f (ev_github_repo_public ev = Some 1))"
    using finalize_evaluation_run(5)[OF assms(1,2)] assms(3) by (simp add: d_def)
  have st: "ev_status ev' = ''completed''" and res: "ev_final_result ev' = Some (fst d)"
    by (simp_all add: ev'_def)
  have rule: "if approval = Some ''rejected''
              then fst d = ''failed'' \<and> snd d = ChallengeFailed [RejectedByAdmin]
            else if f < t \<and> truthy (ev_github_repo_url ev) \<and> ev_github_repo_public ev = Some 1
              then fst d = ''success'' \<and> snd d = ChallengeSuccess
            else fst d = ''failed''
               \<and> (\<exists>rs. snd d = ChallengeFailed rs
                    \<and> (VotesNotMajority t f \<in> set rs \<longleftrightarrow> t \<le> f)
                    \<and> (RepoLinkMissing \<in> set rs \<longleftrightarrow> \<not> truthy (ev_github_repo_url ev))
                    \<and> (RepoNotPublic \<in> set rs
                         \<longleftrightarrow> truthy (ev_github_repo_url ev) \<and> ev_github_repo_public ev \<noteq> Some 1)
                    \<and> RejectedByAdmin \<notin> set rs \<and> rs \<noteq> [])"
    unfolding d_def by (auto simp: decide_def)
  show ?thesis
    apply (rule exI[of _ ev'])
    apply (rule exI[of _ "snd d"])
    unfolding res using get eff st rule by presburger
qed


lemma demo_get_E1: "evaluation_get demo_store ''E1'' = Some demo_evaluation"
  by (simp add: evaluation_get_def demo_store_def demo_evaluation_def)

lemma demo_votes: "get_votes demo_store ''E1'' = (2, 0)"
  by (simp add: get_votes_def list_by_evaluation_def demo_store_def demo_juror_def)

lemma demo_status: "ev_status demo_evaluation = ''evaluating''"
  by (simp add: demo_evaluation_def)

theorem finalize_evaluation_priority_rule_witness:
  "evaluation_get demo_store ''E1'' = Some demo_evaluation
   \<and> ev_status demo_evaluation = ''evaluating''
   \<and> get_votes demo_store ''E1'' = (2, 0)
   \<and> (\<exists>ev'. evaluation_get (finalize_evaluation demo_env demo_store ''E1'' None) ''E1'' = Some ev'
            \<and> ev_status ev' = ''completed'' \<and> ev_final_result ev' = Some ''success'')"
proof -
  from finalize_evaluation_priority_rule[OF demo_get_E1 demo_status demo_votes, of demo_env None]
  obtain ev' rt where
    "evaluation_get (finalize_evaluation demo_env demo_store ''E1'' None) ''E1'' = Some ev'"
    "ev_status ev' = ''completed''"
    "if None = Some ''rejected''
       then ev_final_result ev' = Some ''failed'' \<and> rt = ChallengeFailed [RejectedByAdmin]
     else if (0::nat) < 2 \<and> truthy (ev_github_repo_url demo_evaluation)
              \<and> ev_github_repo_public demo_evaluation = Some 1
       then ev_final_result ev' = Some ''success'' \<and> rt = ChallengeSuccess
     else ev_final_result ev' = Some ''failed''
        \<and> (\<exists>rs. rt = ChallengeFailed rs
             \<and> (VotesNotMajority 2 0 \<in> set rs \<longleftrightarrow> (2::nat) \<le> 0)
             \<and> (RepoLinkMissing \<in> set rs \<longleftrightarrow> \<not> truthy (ev_github_repo_url demo_evaluation))
             \<and> (RepoNotPublic \<in> set rs
                  \<longleftrightarrow> truthy (ev_github_repo_url demo_evaluation)
                      \<and> ev_github_repo_public demo_evaluation \<noteq> Some 1)
             \<and> RejectedByAdmin \<notin> set rs \<and> rs \<noteq> [])"
    by blast
  moreover have "truthy (ev_github_repo_url demo_evaluation)"
    and "ev_github_repo_public demo_evaluation = Some 1"
    by (simp_all add: demo_evaluation_def)
  ultimately have "\<exists>ev'. evaluation_get (finalize_evaluation demo_env demo_store ''E1'' None) ''E1'' = Some ev'
            \<and> ev_status ev' = ''completed'' \<and> ev_final_result ev' = Some ''success''"
    by auto
  then show ?thesis
    using demo_get_E1 demo_status demo_votes by simp
qed

section \<open>Idempotence of finalize_evaluation\<close>

lemma finalize_evaluation_noop:
  assumes "evaluation_get s eid = None \<or> (\<exists>ev. evaluation_get s eid = Some ev \<and> ev_status ev \<noteq> ''evaluating'')"
  shows "finalize_evaluation e s eid a = s"
  using assms by (auto simp: finalize_evaluation_def)

lemma finalize_evaluation_twice:
  "finalize_evaluation e' (finalize_evaluation e s eid a) eid a' = finalize_evaluation e s eid a"
proof (cases "evaluation_get s eid")
  case None
  then show ?thesis by (simp add: finalize_evaluation_noop)
next
  case (Some ev)
  show ?thesis
  proof (cases "ev_status ev = ''evaluating''")
    case True
    have "\<exists>ev'. evaluation_get (finalize_evaluation e s eid a) eid = Some ev'
               \<and> ev_status ev' \<noteq> ''evaluating''"
      unfolding evaluation_get_finalized[OF Some True] by simp
    then show ?thesis by (intro finalize_evaluation_noop) blast
  next
    case False
    with Some show ?thesis by (simp add: finalize_evaluation_noop)
  qed
qed

lemma count_archive_finalize_calls: "count_list (finalize_calls ev h m) (ArchiveChannel c) \<le> 1"
  by (cases h) (simp_all add: finalize_calls_def)

lemma finalize_evaluation_archives_once:
  "count_list (effects (finalize_evaluation e s eid a)) (ArchiveChannel c)
   \<le> count_list (effects s) (ArchiveChannel c) + 1"
proof (cases "evaluation_get s eid")
  case None
  then show ?thesis by (simp add: finalize_evaluation_noop)
next
  case (Some ev)
  show ?thesis
  proof (cases "ev_status ev = ''evaluating''")
    case True
    show ?thesis
      unfolding finalize_evaluation_run(5)[OF Some True]
      using count_archive_finalize_calls by simp
  next
    case False
    with Some show ?thesis by (simp add: finalize_evaluation_noop)
  qed
qed

text \<open>
  C3. \<open>finalize_evaluation\<close> is idempotent. When the evaluation is missing or its status
  is not \<open>evaluating\<close>, the call changes nothing: no row and no collaborator call is
  added, so the store is the same. Hence a second call after a first one (with any
  clock and any administrator decision) returns the store of the first call, with the
  same stored result, and the two calls together add at most one archive call for any
  channel.
\<close>

theorem finalize_evaluation_idempotent:
  "((evaluation_get s eid = None
      \<or> (\<exists>ev. evaluation_get s eid = Some ev \<and> ev_status ev \<noteq> ''evaluating''))
     \<longrightarrow> finalize_evaluation e s eid a = s)
   \<and> finalize_evaluation e' (finalize_evaluation e s eid a) eid a' = finalize_evaluation e s eid a
   \<and> count_list (effects (finalize_evaluation e' (finalize_evaluation e s eid a) eid a'))
        (ArchiveChannel c)
      \<le> count_list (effects s) (ArchiveChannel c) + 1"
  using finalize_evaluation_noop[of s eid e a] finalize_evaluation_twice[of e' e s eid a a']
    finalize_evaluation_archives_once[of e s eid a c]
  by simp

lemma demo_completed_get_E1:
  "evaluation_get demo_completed ''E1''
   = Some (demo_evaluation\<lparr>ev_status := ''completed'', ev_final_result := Some ''success'',
                           ev_completed_at := Some 990\<rparr>)"
  by (simp add: evaluation_get_def demo_completed_def demo_store_def demo_evaluation_def)

theorem finalize_evaluation_idempotent_witness:
  "(\<exists>ev. evaluation_get demo_completed ''E1'' = Some ev \<and> ev_status ev \<noteq> ''evaluating'')
   \<and> finalize_evaluation demo_env demo_completed ''E1'' None = demo_completed
   \<and> finalize_evaluation demo_env (finalize_evaluation demo_env demo_store ''E1'' None) ''E1'' None
       = finalize_evaluation demo_env demo_store ''E1'' None"
proof -
  have h: "\<exists>ev. evaluation_get demo_completed ''E1'' = Some ev \<and> ev_status ev \<noteq> ''evaluating''"
    unfolding demo_completed_get_E1 by simp
  show ?thesis
    using h finalize_evaluation_idempotent[of demo_completed "''E1''" demo_env None demo_env None "''CEVAL''"]
      finalize_evaluation_idempotent[of demo_store "''E1''" demo_env None demo_env None "''CEVAL''"]
    by blast
qed


section \<open>Operations on a completed evaluation\<close>

lemma evaluators_call_if [simp]:
  "evaluators (if b then call c s else s) = evaluators s"
  "participants (if b then call c s else s) = participants s"
  by simp_all

lemma force_complete_admin:
  assumes "evaluation_get s eid = Some ev"
  shows "evaluations (snd (force_complete_evaluation e s eid (admin_slack_id e) r))
           = map (\<lambda>x. if ev_id x = eid then x\<lparr>ev_status := ''completed'', ev_final_result := Some r,
                     ev_completed_at := Some (clock e 0)\<rparr> else x) (evaluations s)"
    and "hubs (snd (force_complete_evaluation e s eid (admin_slack_id e) r))
           = map (\<lambda>h. if hub_id h = ev_challenge_hub_id ev then h\<lparr>hub_status := ''completed'',
                     hub_completed_at := Some (clock e 1)\<rparr> else h) (hubs s)"
    and "evaluators (snd (force_complete_evaluation e s eid (admin_slack_id e) r)) = evaluators s"
    and "participants (snd (force_complete_evaluation e s eid (admin_slack_id e) r)) = participants s"
  using assms unfolding force_complete_evaluation_def Let_def
  by (simp_all add: hub_update_def evaluation_update_def split: option.splits)

text \<open>
  What the three operations do to an evaluation whose status is \<open>completed\<close>:
  \<open>finalize_evaluation\<close> and \<open>admin_finalize_evaluation\<close> are guarded and leave the
  whole store unchanged (the latter answers with a failure), and so does
  \<open>force_complete_evaluation\<close> called by anyone but the administrator. Called by the
  administrator, \<open>force_complete_evaluation\<close> checks no status: the evaluation's
  \<open>final_result\<close> and \<open>completed_at\<close> and the hub's \<open>completed_at\<close> are written again.
\<close>

theorem completed_evaluation_frame:
  assumes "evaluation_get s eid = Some ev"
      and "ev_status ev = ''completed''"
  shows "finalize_evaluation e s eid a = s
       \<and> admin_finalize_evaluation e s eid u approval
           = (if u \<noteq> admin_slack_id e then OnlyAdmin else AlreadyCompleted, s)
       \<and> (u \<noteq> admin_slack_id e \<longrightarrow> force_complete_evaluation e s eid u r = (Unauthorized, s))
       \<and> (u = admin_slack_id e \<longrightarrow>
            evaluation_get (snd (force_complete_evaluation e s eid u r)) eid
              = Some (ev\<lparr>ev_final_result := Some r, ev_completed_at := Some (clock e 0)\<rparr>)
          \<and> hub_get (snd (force_complete_evaluation e s eid u r)) (ev_challenge_hub_id ev)
              = map_option (\<lambda>h. h\<lparr>hub_status := ''completed'', hub_completed_at := Some (clock e 1)\<rparr>)
                  (hub_get s (ev_challenge_hub_id ev))
          \<and> (\<forall>i. i \<noteq> eid \<longrightarrow>
                 evaluation_get (snd (force_complete_evaluation e s eid u r)) i = evaluation_get s i)
          \<and> (\<forall>i. i \<noteq> ev_challenge_hub_id ev \<longrightarrow>
                 hub_get (snd (force_complete_evaluation e s eid u r)) i = hub_get s i)
          \<and> evaluators (snd (force_complete_evaluation e s eid u r)) = evaluators s
          \<and> participants (snd (force_complete_evaluation e s eid u r)) = participants s)"
proof -
  have fin: "finalize_evaluation e s eid a = s"
    using assms by (intro finalize_evaluation_noop) simp
  have adm: "admin_finalize_evaluation e s eid u approval
           = (if u \<noteq> admin_slack_id e then OnlyAdmin else AlreadyCompleted, s)"
    using assms by (simp add: admin_finalize_evaluation_def)
  have other: "u \<noteq> admin_slack_id e \<Longrightarrow> force_complete_evaluation e s eid u r = (Unauthorized, s)"
    by (simp add: force_complete_evaluation_def)
  have same: "ev\<lparr>ev_status := ''completed'', ev_final_result := Some r, ev_completed_at := Some (clock e 0)\<rparr>
              = ev\<lparr>ev_final_result := Some r, ev_completed_at := Some (clock e 0)\<rparr>"
    using assms(2) by (cases ev) simp
  have forced: "evaluation_get (snd (force_complete_evaluation e s eid (admin_slack_id e) r)) i
              = (if i = eid
                 then Some (ev\<lparr>ev_final_result := Some r, ev_completed_at := Some (clock e 0)\<rparr>)
                 else evaluation_get s i)" for i
    unfolding evaluation_get_def force_complete_admin(1)[OF assms(1)]
    by (subst find_map_same) (use assms(1) same in \<open>simp_all add: evaluation_get_def\<close>)
  have hubf: "hub_get (snd (force_complete_evaluation e s eid (admin_slack_id e) r)) i
              = (if i = ev_challenge_hub_id ev
                 then map_option (\<lambda>h. h\<lparr>hub_status := ''completed'', hub_completed_at := Some (clock e 1)\<rparr>)
                        (hub_get s i)
                 else hub_get s i)" for i
    unfolding hub_get_def force_complete_admin(2)[OF assms(1)]
    by (subst find_map_same) simp_all
  show ?thesis
    using fin adm other forced hubf force_complete_admin(3,4)[OF assms(1)] by simp
qed

theorem completed_evaluation_frame_witness:
  "ev_status (demo_evaluation\<lparr>ev_status := ''completed'', ev_final_result := Some ''success'',
                              ev_completed_at := Some 990\<rparr>) = ''completed''
   \<and> ''U9'' \<noteq> admin_slack_id demo_env \<and> ''ADMIN'' = admin_slack_id demo_env
   \<and> finalize_evaluation demo_env demo_completed ''E1'' None = demo_completed
   \<and> force_complete_evaluation demo_env demo_completed ''E1'' ''U9'' ''failed''
       = (Unauthorized, demo_completed)
   \<and> evaluators (snd (force_complete_evaluation demo_env demo_completed ''E1'' ''ADMIN'' ''failed''))
       = evaluators demo_completed"
proof -
  have st: "ev_status (demo_evaluation\<lparr>ev_status := ''completed'', ev_final_result := Some ''success'',
                              ev_completed_at := Some 990\<rparr>) = ''completed''"
    by simp
  have n: "''U9'' \<noteq> admin_slack_id demo_env" and a: "''ADMIN'' = admin_slack_id demo_env"
    by (simp_all add: demo_env_def)
  show ?thesis
    using st n a
      completed_evaluation_frame[OF demo_completed_get_E1 st, of demo_env None "''U9''" "''approved''" "''failed''"]
      completed_evaluation_frame[OF demo_completed_get_E1 st, of demo_env None "''ADMIN''" "''approved''" "''failed''"]
    by simp
qed

text \<open>
  C4 on the code. Once an evaluation is \<open>completed\<close>, no further finalize, admin
  finalize or force-complete call should change it or its hub. \<open>finalize_evaluation\<close>
  and \<open>admin_finalize_evaluation\<close> keep to this (the second answers "already
  completed"), but \<open>force_complete_evaluation\<close> lacks the guard its siblings have: on
  the completed evaluation \<open>E1\<close> (result \<open>success\<close>, completed at 990, hub completed
  at 991) the administrator's forced \<open>failed\<close> succeeds, turns the stored result into
  \<open>failed\<close>, rewrites both completion times, posts to the evaluation channel and
  archives it again.
\<close>

theorem force_complete_evaluation_rewrites_completed:
  "map ev_status (evaluations demo_completed) = [''completed'']
   \<and> map ev_final_result (evaluations demo_completed) = [Some ''success'']
   \<and> map ev_completed_at (evaluations demo_completed) = [Some 990]
   \<and> map hub_completed_at (hubs demo_completed) = [Some 991, None]
   \<and> finalize_evaluation demo_env demo_completed ''E1'' None = demo_completed
   \<and> admin_finalize_evaluation demo_env demo_completed ''E1'' ''ADMIN'' ''rejected''
       = (AlreadyCompleted, demo_completed)
   \<and> fst (force_complete_evaluation demo_env demo_completed ''E1'' ''ADMIN'' ''failed'')
       = ForceCompleted ''FAILED''
   \<and> map ev_final_result
        (evaluations (snd (force_complete_evaluation demo_env demo_completed ''E1'' ''ADMIN'' ''failed'')))
       = [Some ''failed'']
   \<and> map ev_completed_at
        (evaluations (snd (force_complete_evaluation demo_env demo_completed ''E1'' ''ADMIN'' ''failed'')))
       = [Some 1000]
   \<and> map hub_completed_at
        (hubs (snd (force_complete_evaluation demo_env demo_completed ''E1'' ''ADMIN'' ''failed'')))
       = [Some 1001, None]
   \<and> effects demo_completed = []
   \<and> effects (snd (force_complete_evaluation demo_env demo_completed ''E1'' ''ADMIN'' ''failed''))
       = [PostMessage ''CEVAL'' (ForceResultMsg False ''ADMIN''), ArchiveChannel ''CEVAL'']"
proof -
  have a: "''ADMIN'' = admin_slack_id demo_env"
    by (simp add: demo_env_def)
  have up: "upper ''failed'' = ''FAILED''"
    by code_simp
  have r: "fst (force_complete_evaluation demo_env demo_completed ''E1'' ''ADMIN'' ''failed'')
       = ForceCompleted ''FAILED''"
    using demo_completed_get_E1 up
    by (simp add: force_complete_evaluation_def Let_def demo_env_def)
  have f: "finalize_evaluation demo_env demo_completed ''E1'' None = demo_completed"
    by (rule finalize_evaluation_noop) (simp add: demo_completed_get_E1)
  have g: "admin_finalize_evaluation demo_env demo_completed ''E1'' ''ADMIN'' ''rejected''
       = (AlreadyCompleted, demo_completed)"
    using demo_completed_get_E1 by (simp add: admin_finalize_evaluation_def demo_env_def)
  have c: "effects demo_completed = []"
    "effects (snd (force_complete_evaluation demo_env demo_completed ''E1'' ''ADMIN'' ''failed''))
       = [PostMessage ''CEVAL'' (ForceResultMsg False ''ADMIN''), ArchiveChannel ''CEVAL'']"
    by (simp_all add: force_complete_evaluation_def Let_def evaluation_get_def call_def
        hub_update_def evaluation_update_def demo_env_def demo_evaluation_def
        demo_completed_def demo_store_def)
  have d: "map ev_status (evaluations demo_completed) = [''completed'']
   \<and> map ev_final_result (evaluations demo_completed) = [Some ''success'']
   \<and> map ev_completed_at (evaluations demo_completed) = [Some 990]
   \<and> map hub_completed_at (hubs demo_completed) = [Some 991, None]
   \<and> map ev_final_result
        (evaluations (snd (force_complete_evaluation demo_env demo_completed ''E1'' ''ADMIN'' ''failed'')))
       = [Some ''failed'']
   \<and> map ev_completed_at
        (evaluations (snd (force_complete_evaluation demo_env demo_completed ''E1'' ''ADMIN'' ''failed'')))
       = [Some 1000]
   \<and> map hub_completed_at
        (hubs (snd (force_complete_evaluation demo_env demo_completed ''E1'' ''ADMIN'' ''failed'')))
       = [Some 1001, None]"
    unfolding a force_complete_admin(1,2)[OF demo_completed_get_E1]
    by (simp add: demo_completed_def demo_store_def demo_evaluation_def demo_hub_def
        demo_hub2_def demo_env_def)
  show ?thesis
    using d r f g c by simp
qed

section \<open>start_evaluation when the channel cannot be created\<close>

lemma start_evaluation_duplicate:
  assumes "hub_get s c = Some h" and "get_by_challenge s c = Some ev"
  shows "start_evaluation e s c tr = (AlreadyStarted, s)"
  using assms by (simp add: start_evaluation_def)

lemma start_evaluation_channel_failure:
  assumes "hub_get s c = Some h" and "get_by_challenge s c = None"
      and "create_channel e (''challenge-evaluation-'' @ take 8 (uuid4 e 1)) = None"
  shows "fst (start_evaluation e s c tr) = ChannelNotCreated"
    and "evaluations (snd (start_evaluation e s c tr))
         = evaluations s @
           [\<lparr>ev_id = uuid4 e 0, ev_challenge_hub_id = c, ev_status = ''pending'',
             ev_deadline_at = clock e 0 + 48 * 3600, ev_evaluation_channel_id = None,
             ev_true_votes = 0, ev_false_votes = 0, ev_github_repo_url = None,
             ev_github_repo_public = Some 0, ev_admin_approval = None,
             ev_final_result = None, ev_completed_at = None\<rparr>]"
    and "hubs (snd (start_evaluation e s c tr)) = hubs s"
  using assms by (simp_all add: start_evaluation_def Let_def evaluation_create_def)

text \<open>
  C2 on the code. The evaluation row is created with status \<open>pending\<close> before the
  channel is requested, and the handler of a failed channel creation returns without
  removing it. On hub \<open>H2\<close>, which has no evaluation, a start with the channel
  directory down answers "channel could not be created" and leaves a \<open>pending\<close> row
  for \<open>H2\<close>; the retried start, with the directory up again, is rejected as
  "already started" and the row stays \<open>pending\<close>.
\<close>

theorem start_evaluation_failure_leaves_pending_row:
  "hub_get demo_store ''H2'' = Some demo_hub2
   \<and> get_by_challenge demo_store ''H2'' = None
   \<and> fst (start_evaluation demo_env_down demo_store ''H2'' ''CTRIG'') = ChannelNotCreated
   \<and> map_option ev_status
        (get_by_challenge (snd (start_evaluation demo_env_down demo_store ''H2'' ''CTRIG'')) ''H2'')
       = Some ''pending''
   \<and> start_evaluation demo_env (snd (start_evaluation demo_env_down demo_store ''H2'' ''CTRIG''))
        ''H2'' ''CTRIG''
       = (AlreadyStarted, snd (start_evaluation demo_env_down demo_store ''H2'' ''CTRIG''))"
proof -
  have h: "hub_get demo_store ''H2'' = Some demo_hub2"
    by (simp add: hub_get_def demo_store_def demo_hub_def demo_hub2_def)
  have n: "get_by_challenge demo_store ''H2'' = None"
    by (simp add: get_by_challenge_def demo_store_def demo_evaluation_def)
  have d: "create_channel demo_env_down (''challenge-evaluation-'' @ take 8 (uuid4 demo_env_down 1)) = None"
    by (simp add: demo_env_down_def)
  note f = start_evaluation_channel_failure[OF h n d, of "''CTRIG''"]
  have p: "map_option ev_status
        (get_by_challenge (snd (start_evaluation demo_env_down demo_store ''H2'' ''CTRIG'')) ''H2'')
       = Some ''pending''"
    unfolding get_by_challenge_def f(2)
    by (simp add: demo_store_def demo_evaluation_def)
  then obtain ev where
    g: "get_by_challenge (snd (start_evaluation demo_env_down demo_store ''H2'' ''CTRIG'')) ''H2'' = Some ev"
    by auto
  have h': "hub_get (snd (start_evaluation demo_env_down demo_store ''H2'' ''CTRIG'')) ''H2'' = Some demo_hub2"
    using h f(3) by (simp add: hub_get_def)
  show ?thesis
    using h n f(1) p start_evaluation_duplicate[OF h' g, of demo_env "''CTRIG''"] by simp
qed

section \<open>Eligibility\<close>

lemma hub_get_id: "hub_get s i = Some h \<Longrightarrow> hub_id h = i"
  by (auto simp: hub_get_def find_Some_iff)

lemma ineligible_iff:
  "ineligible e s h u
   \<longleftrightarrow> (u = admin_slack_id e \<or> u = hub_creator_id h
        \<or> u \<in> set (map p_user_id (participant_list s (hub_id h))))"
  by (auto simp: ineligible_def participant_list_def)

text \<open>
  C5. When the evaluation and its hub exist and the user is the administrator, the
  hub's creator or one of its participants, \<open>toggle_juror\<close> returns the "team or admin
  cannot be juror" failure and \<open>submit_vote\<close> returns a failure, and neither changes the
  store: no evaluator row is created and no vote is recorded.
\<close>

theorem ineligible_user_is_rejected:
  assumes "evaluation_get s eid = Some ev"
      and "hub_get s (ev_challenge_hub_id ev) = Some h"
      and "ineligible e s h u"
  shows "toggle_juror e s eid u = (TeamOrAdminCannotJoin, s)
       \<and> \<not> success (fst (toggle_juror e s eid u))
       \<and> \<not> success (fst (submit_vote e s eid u v))
       \<and> snd (submit_vote e s eid u v) = s"
proof -
  have i: "u = admin_slack_id e \<or> u = hub_creator_id h
        \<or> u \<in> set (map p_user_id (participant_list s (hub_id h)))"
    using assms(3) by (simp add: ineligible_iff)
  have t: "toggle_juror e s eid u = (TeamOrAdminCannotJoin, s)"
    using assms(1,2) i by (simp add: toggle_juror_def Let_def)
  have v: "submit_vote e s eid u v
           = (if u = admin_slack_id e then AdminCannotVote
              else if u = hub_creator_id h then CreatorCannotVote else ParticipantCannotVote, s)"
    using assms(1,2) i by (auto simp: submit_vote_def)
  show ?thesis
    using t v by simp
qed

lemma demo_get_H1: "hub_get demo_store (ev_challenge_hub_id demo_evaluation) = Some demo_hub"
  by (simp add: hub_get_def demo_store_def demo_evaluation_def demo_hub_def)

theorem ineligible_user_is_rejected_witness:
  "ineligible demo_env demo_store demo_hub ''U2''
   \<and> toggle_juror demo_env demo_store ''E1'' ''U2'' = (TeamOrAdminCannotJoin, demo_store)
   \<and> snd (submit_vote demo_env demo_store ''E1'' ''U2'' ''true'') = demo_store"
proof -
  have i: "ineligible demo_env demo_store demo_hub ''U2''"
    by (simp add: ineligible_def demo_store_def demo_hub_def)
  show ?thesis
    using i ineligible_user_is_rejected[OF demo_get_E1 demo_get_H1 i, of "''true''"] by simp
qed

section \<open>The vote is written once\<close>

lemma find_unique_key:
  assumes "distinct (map k xs)" and "r \<in> set xs"
  shows "find (\<lambda>x. k x = k r) xs = Some r"
  using assms by (induction xs) (auto simp: image_iff)

lemma unique_membership_lookup:
  assumes "unique_membership s" and "r \<in> set (evaluators s)"
  shows "get_by_evaluation_and_user s (j_evaluation_id r) (j_user_id r) = Some r"
proof -
  have "find (\<lambda>x. (j_evaluation_id x, j_user_id x) = (j_evaluation_id r, j_user_id r)) (evaluators s)
        = Some r"
    using assms unfolding unique_membership_def by (rule find_unique_key)
  then show ?thesis
    by (simp add: get_by_evaluation_and_user_def)
qed

lemma submit_vote_failure_keeps_store:
  "\<not> success (fst (submit_vote e s eid u v)) \<Longrightarrow> snd (submit_vote e s eid u v) = s"
  by (auto simp: submit_vote_def Let_def split: option.splits if_splits)

text \<open>
  C6. In a store where the pair (evaluation, user) is unique among the evaluator rows,
  if the row of a user in an evaluation holds a non-empty vote, every further
  \<open>submit_vote\<close> of that user on that evaluation, with any vote value, returns a
  failure and leaves the store unchanged: the stored vote and the running tallies are as
  before. When the evaluation and its hub exist and the user is eligible, the failure is
  "already voted".
\<close>

theorem vote_is_write_once:
  assumes "unique_membership s"
      and "r \<in> set (evaluators s)"
      and "truthy (j_vote r)"
  shows "\<not> success (fst (submit_vote e s (j_evaluation_id r) (j_user_id r) v))
       \<and> snd (submit_vote e s (j_evaluation_id r) (j_user_id r) v) = s
       \<and> get_votes (snd (submit_vote e s (j_evaluation_id r) (j_user_id r) v)) (j_evaluation_id r)
           = get_votes s (j_evaluation_id r)
       \<and> ((\<exists>ev h. evaluation_get s (j_evaluation_id r) = Some ev
                 \<and> hub_get s (ev_challenge_hub_id ev) = Some h
                 \<and> \<not> ineligible e s h (j_user_id r))
            \<longrightarrow> fst (submit_vote e s (j_evaluation_id r) (j_user_id r) v) = AlreadyVoted)"
proof -
  note l = unique_membership_lookup[OF assms(1,2)]
  have f: "\<not> success (fst (submit_vote e s (j_evaluation_id r) (j_user_id r) v))"
    using l assms(3) by (auto simp: submit_vote_def Let_def split: option.splits)
  have a: "fst (submit_vote e s (j_evaluation_id r) (j_user_id r) v) = AlreadyVoted"
    if "evaluation_get s (j_evaluation_id r) = Some ev"
      and "hub_get s (ev_challenge_hub_id ev) = Some h"
      and "\<not> ineligible e s h (j_user_id r)" for ev h
    using that l assms(3) by (simp add: submit_vote_def ineligible_iff)
  show ?thesis
    using f submit_vote_failure_keeps_store[OF f] a by auto
qed

lemma demo_unique: "unique_membership demo_store"
  by (simp add: unique_membership_def demo_store_def demo_juror_def)

theorem vote_is_write_once_witness:
  "unique_membership demo_store
   \<and> demo_juror ''K1'' ''J1'' (Some ''true'') \<in> set (evaluators demo_store)
   \<and> truthy (j_vote (demo_juror ''K1'' ''J1'' (Some ''true'')))
   \<and> \<not> ineligible demo_env demo_store demo_hub ''J1''
   \<and> submit_vote demo_env demo_store ''E1'' ''J1'' ''false'' = (AlreadyVoted, demo_store)"
proof -
  have m: "demo_juror ''K1'' ''J1'' (Some ''true'') \<in> set (evaluators demo_store)"
    by (simp add: demo_store_def)
  have t: "truthy (j_vote (demo_juror ''K1'' ''J1'' (Some ''true'')))"
    by (simp add: demo_juror_def)
  have i: "\<not> ineligible demo_env demo_store demo_hub ''J1''"
    by (simp add: ineligible_def demo_store_def demo_hub_def demo_env_def)
  have k: "j_evaluation_id (demo_juror ''K1'' ''J1'' (Some ''true'')) = ''E1''"
    "j_user_id (demo_juror ''K1'' ''J1'' (Some ''true'')) = ''J1''"
    by (simp_all add: demo_juror_def)
  have "fst (submit_vote demo_env demo_store ''E1'' ''J1'' ''false'') = AlreadyVoted
        \<and> snd (submit_vote demo_env demo_store ''E1'' ''J1'' ''false'') = demo_store"
    using vote_is_write_once[OF demo_unique m t, of demo_env "''false''"]
      demo_get_E1 demo_get_H1 i unfolding k by blast
  then show ?thesis
    using demo_unique m t i by (simp add: prod_eq_iff)
qed


section \<open>The capacity of the jury pool\<close>

lemma dm_fields [simp]:
  "hubs (dm e u m s) = hubs s" "participants (dm e u m s) = participants s"
  "evaluations (dm e u m s) = evaluations s" "evaluators (dm e u m s) = evaluators s"
  by (simp_all add: dm_def Let_def split: option.splits)

lemma fold_dm_fields [simp]:
  "hubs (fold (\<lambda>j. dm e j m) js s) = hubs s"
  "participants (fold (\<lambda>j. dm e j m) js s) = participants s"
  "evaluations (fold (\<lambda>j. dm e j m) js s) = evaluations s"
  "evaluators (fold (\<lambda>j. dm e j m) js s) = evaluators s"
  by (induction js arbitrary: s) simp_all

lemma batch_invite_fields [simp]:
  "hubs (batch_invite e s ev i) = hubs s" "participants (batch_invite e s ev i) = participants s"
  "evaluations (batch_invite e s ev i) = evaluations s"
  "evaluators (batch_invite e s ev i) = evaluators s"
  by (simp_all add: batch_invite_def Let_def split: option.splits list.splits)

lemma evaluator_ops_fields [simp]:
  "evaluators (evaluator_create s r) = evaluators s @ [r]"
  "evaluators (evaluator_delete s k) = filter (\<lambda>r. j_id r \<noteq> k) (evaluators s)"
  "evaluators (evaluator_update s k f) = map (\<lambda>r. if j_id r = k then f r else r) (evaluators s)"
  "hubs (evaluator_create s r) = hubs s" "hubs (evaluator_delete s k) = hubs s"
  "hubs (evaluator_update s k f) = hubs s"
  "participants (evaluator_create s r) = participants s"
  "participants (evaluator_delete s k) = participants s"
  "participants (evaluator_update s k f) = participants s"
  "evaluations (evaluator_create s r) = evaluations s"
  "evaluations (evaluator_delete s k) = evaluations s"
  "evaluations (evaluator_update s k f) = evaluations s"
  by (simp_all add: evaluator_create_def evaluator_delete_def evaluator_update_def)

text \<open>The three ways \<open>toggle_juror\<close> can leave the evaluator table.\<close>

lemma toggle_juror_evaluators:
  "evaluators (snd (toggle_juror e s eid u)) = evaluators s
   \<or> (\<exists>k. evaluators (snd (toggle_juror e s eid u)) = filter (\<lambda>r. j_id r \<noteq> k) (evaluators s))
   \<or> (count_evaluators s eid < 3 \<and> get_by_evaluation_and_user s eid u = None
      \<and> evaluators (snd (toggle_juror e s eid u)) = evaluators s @ [new_juror e eid u])"
  unfolding toggle_juror_def Let_def new_juror_def
  by (auto split: option.splits)

lemma toggle_juror_full:
  assumes "evaluation_get s eid = Some ev" and "hub_get s (ev_challenge_hub_id ev) = Some h"
      and "\<not> ineligible e s h u" and "get_by_evaluation_and_user s eid u = None"
      and "count_evaluators s eid \<ge> 3"
  shows "toggle_juror e s eid u = (JuryFull, s)"
  using assms by (simp add: toggle_juror_def Let_def ineligible_iff)

lemma length_filter_filter_le: "length (filter Q (filter P xs)) \<le> length (filter Q xs)"
  by (induction xs) auto

lemma count_filter_le:
  "count_evaluators (s\<lparr>evaluators := filter P (evaluators s)\<rparr>) i \<le> count_evaluators s i"
  unfolding count_evaluators_def list_by_evaluation_def
  using length_filter_filter_le[of "\<lambda>r. j_evaluation_id r = i" P "evaluators s"]
  by (simp del: filter_filter)

lemma count_evaluators_cong:
  "evaluators s' = evaluators s \<Longrightarrow> count_evaluators s' i = count_evaluators s i"
  by (simp add: count_evaluators_def list_by_evaluation_def)

lemma toggle_juror_keeps_capacity:
  assumes "count_evaluators s i \<le> 3"
  shows "count_evaluators (snd (toggle_juror e s eid u)) i \<le> 3"
proof -
  let ?s' = "snd (toggle_juror e s eid u)"
  consider (same) "evaluators ?s' = evaluators s"
    | (left) k where "evaluators ?s' = filter (\<lambda>r. j_id r \<noteq> k) (evaluators s)"
    | (joined) "count_evaluators s eid < 3" "evaluators ?s' = evaluators s @ [new_juror e eid u]"
    using toggle_juror_evaluators[of e s eid u] by blast
  then show ?thesis
  proof cases
    case same
    show ?thesis using assms count_evaluators_cong[OF same, of i] by simp
  next
    case left
    have "count_evaluators ?s' i
          = count_evaluators (s\<lparr>evaluators := filter (\<lambda>r. j_id r \<noteq> k) (evaluators s)\<rparr>) i"
      by (rule count_evaluators_cong) (simp add: left)
    also have "\<dots> \<le> count_evaluators s i" by (rule count_filter_le)
    finally show ?thesis using assms by simp
  next
    case joined
    have "count_evaluators ?s' i = count_evaluators s i + (if i = eid then 1 else 0)"
      by (simp add: count_evaluators_def list_by_evaluation_def joined(2) new_juror_def)
    then show ?thesis using assms joined(1) by (simp split: if_splits)
  qed
qed

lemma toggle_juror_inserts_below_capacity:
  assumes "length (evaluators (snd (toggle_juror e s eid u))) > length (evaluators s)"
  shows "count_evaluators s eid < 3
       \<and> evaluators (snd (toggle_juror e s eid u)) = evaluators s @ [new_juror e eid u]"
proof -
  let ?s' = "snd (toggle_juror e s eid u)"
  consider (same) "evaluators ?s' = evaluators s"
    | (left) k where "evaluators ?s' = filter (\<lambda>r. j_id r \<noteq> k) (evaluators s)"
    | (joined) "count_evaluators s eid < 3" "evaluators ?s' = evaluators s @ [new_juror e eid u]"
    using toggle_juror_evaluators[of e s eid u] by blast
  then show ?thesis
  proof cases
    case same
    with assms show ?thesis by simp
  next
    case left
    have "length (filter (\<lambda>r. j_id r \<noteq> k) (evaluators s)) \<le> length (evaluators s)"
      by simp
    with assms left show ?thesis by simp
  next
    case joined
    then show ?thesis by simp
  qed
qed

text \<open>
  C7. \<open>toggle_juror\<close> never lets a jury pool exceed three members: a pool of at most
  three (of any evaluation) is a pool of at most three after the call; the table gains
  a row only when the pool of the evaluation had strictly fewer than three members, and
  the row gained is the caller's; and a join attempt (evaluation and hub exist, the user
  is eligible and not yet a member) on a pool of three is answered "pool full" and
  leaves the store unchanged.
\<close>

theorem jury_pool_never_exceeds_three:
  "(count_evaluators s i \<le> 3 \<longrightarrow> count_evaluators (snd (toggle_juror e s eid u)) i \<le> 3)
   \<and> (length (evaluators (snd (toggle_juror e s eid u))) > length (evaluators s)
        \<longrightarrow> count_evaluators s eid < 3
          \<and> evaluators (snd (toggle_juror e s eid u)) = evaluators s @ [new_juror e eid u])
   \<and> ((\<exists>ev h. evaluation_get s eid = Some ev \<and> hub_get s (ev_challenge_hub_id ev) = Some h
              \<and> \<not> ineligible e s h u)
        \<and> get_by_evaluation_and_user s eid u = None \<and> count_evaluators s eid \<ge> 3
        \<longrightarrow> toggle_juror e s eid u = (JuryFull, s) \<and> \<not> success (fst (toggle_juror e s eid u)))"
proof (intro conjI impI)
  assume "count_evaluators s i \<le> 3"
  then show "count_evaluators (snd (toggle_juror e s eid u)) i \<le> 3"
    by (rule toggle_juror_keeps_capacity)
next
  assume g: "length (evaluators (snd (toggle_juror e s eid u))) > length (evaluators s)"
  show "count_evaluators s eid < 3"
    using toggle_juror_inserts_below_capacity[OF g] by simp
  show "evaluators (snd (toggle_juror e s eid u)) = evaluators s @ [new_juror e eid u]"
    using toggle_juror_inserts_below_capacity[OF g] by simp
next
  assume a: "(\<exists>ev h. evaluation_get s eid = Some ev \<and> hub_get s (ev_challenge_hub_id ev) = Some h
              \<and> \<not> ineligible e s h u)
        \<and> get_by_evaluation_and_user s eid u = None \<and> count_evaluators s eid \<ge> 3"
  then obtain ev h where "evaluation_get s eid = Some ev"
    "hub_get s (ev_challenge_hub_id ev) = Some h" "\<not> ineligible e s h u"
    by blast
  then have f: "toggle_juror e s eid u = (JuryFull, s)"
    using a by (intro toggle_juror_full) simp_all
  show "toggle_juror e s eid u = (JuryFull, s)" by (rule f)
  show "\<not> success (fst (toggle_juror e s eid u))" by (simp add: f)
qed

lemma demo_two_get:
  "evaluation_get demo_two_jurors ''E1'' = Some demo_evaluation"
  "hub_get demo_two_jurors (ev_challenge_hub_id demo_evaluation) = Some demo_hub"
  using demo_get_E1 demo_get_H1
  by (simp_all add: demo_two_jurors_def evaluation_get_def hub_get_def)

lemma demo_count: "count_evaluators demo_store ''E1'' = 3" "count_evaluators demo_two_jurors ''E1'' = 2"
  by (simp_all add: count_evaluators_def list_by_evaluation_def demo_two_jurors_def
      demo_store_def demo_juror_def)

lemma demo_U9:
  "\<not> ineligible demo_env demo_store demo_hub ''U9''"
  "get_by_evaluation_and_user demo_store ''E1'' ''U9'' = None"
  "get_by_evaluation_and_user demo_two_jurors ''E1'' ''U9'' = None"
  by (simp_all add: ineligible_def get_by_evaluation_and_user_def demo_two_jurors_def
      demo_store_def demo_hub_def demo_env_def demo_juror_def)

lemma demo_U9_joins:
  "fst (toggle_juror demo_env demo_two_jurors ''E1'' ''U9'') = JoinedJury 3 True"
  "length (evaluators (snd (toggle_juror demo_env demo_two_jurors ''E1'' ''U9''))) = 3"
  "length (evaluators demo_two_jurors) = 2"
  by (simp_all add: toggle_juror_def Let_def evaluation_get_def hub_get_def participant_list_def
      get_by_evaluation_and_user_def count_evaluators_def list_by_evaluation_def
      demo_two_jurors_def demo_store_def demo_evaluation_def demo_hub_def demo_hub2_def
      demo_env_def demo_juror_def batch_invite_def dm_def call_def evaluator_create_def)

theorem jury_pool_never_exceeds_three_witness:
  "count_evaluators demo_store ''E1'' \<le> 3
   \<and> toggle_juror demo_env demo_store ''E1'' ''U9'' = (JuryFull, demo_store)
   \<and> count_evaluators (snd (toggle_juror demo_env demo_store ''E1'' ''U9'')) ''E1'' \<le> 3
   \<and> length (evaluators (snd (toggle_juror demo_env demo_two_jurors ''E1'' ''U9'')))
       > length (evaluators demo_two_jurors)
   \<and> count_evaluators demo_two_jurors ''E1'' < 3
   \<and> evaluators (snd (toggle_juror demo_env demo_two_jurors ''E1'' ''U9''))
       = evaluators demo_two_jurors @ [new_juror demo_env ''E1'' ''U9'']"
proof -
  have full: "(\<exists>ev h. evaluation_get demo_store ''E1'' = Some ev
                 \<and> hub_get demo_store (ev_challenge_hub_id ev) = Some h
                 \<and> \<not> ineligible demo_env demo_store h ''U9'')
              \<and> get_by_evaluation_and_user demo_store ''E1'' ''U9'' = None
              \<and> count_evaluators demo_store ''E1'' \<ge> 3"
    using demo_get_E1 demo_get_H1 demo_U9 demo_count by simp
  have grow: "length (evaluators (snd (toggle_juror demo_env demo_two_jurors ''E1'' ''U9'')))
       > length (evaluators demo_two_jurors)"
    by (simp add: demo_U9_joins)
  show ?thesis
    using full grow demo_count
      jury_pool_never_exceeds_three[of demo_store "''E1''" demo_env "''E1''" "''U9''"]
      jury_pool_never_exceeds_three[of demo_two_jurors "''E1''" demo_env "''E1''" "''U9''"]
    by simp
qed

section \<open>What a successful submit_vote changes\<close>

lemma get_votes_cong: "evaluators s' = evaluators s \<Longrightarrow> get_votes s' i = get_votes s i"
  by (simp add: get_votes_def list_by_evaluation_def)

lemma submit_vote_accepts:
  assumes "evaluation_get s eid = Some ev" and "hub_get s (ev_challenge_hub_id ev) = Some h"
      and "\<not> ineligible e s h u" and "get_by_evaluation_and_user s eid u = Some j"
      and "\<not> truthy (j_vote j)"
  shows "fst (submit_vote e s eid u v) = VoteSaved v"
    and "evaluators (snd (submit_vote e s eid u v)) = map (cast e (j_id j) v) (evaluators s)"
    and "evaluations (snd (submit_vote e s eid u v))
         = map (\<lambda>r. if ev_id r = eid
                     then r\<lparr>ev_true_votes := fst (get_votes (s\<lparr>evaluators := map (cast e (j_id j) v) (evaluators s)\<rparr>) eid),
                            ev_false_votes := snd (get_votes (s\<lparr>evaluators := map (cast e (j_id j) v) (evaluators s)\<rparr>) eid)\<rparr>
                     else r) (evaluations s)"
    and "hubs (snd (submit_vote e s eid u v)) = hubs s"
    and "participants (snd (submit_vote e s eid u v)) = participants s"
  using assms
  by (simp_all add: submit_vote_def Let_def ineligible_iff update_votes_def evaluation_update_def
      evaluator_update_def cast_def[abs_def])

lemma submit_vote_success_cases:
  assumes "success (fst (submit_vote e s eid u v))"
  shows "\<exists>ev h j. evaluation_get s eid = Some ev \<and> hub_get s (ev_challenge_hub_id ev) = Some h
           \<and> \<not> ineligible e s h u \<and> get_by_evaluation_and_user s eid u = Some j
           \<and> \<not> truthy (j_vote j)"
  using assms unfolding submit_vote_def ineligible_iff
  by (auto split: option.splits if_splits)

text \<open>
  C8. A successful \<open>submit_vote\<close> writes the lower-cased vote and the time into the
  caller's evaluator row (the rows with its id) and the recomputed tallies into the
  evaluation row, and nothing else: the status, the final result and the completion
  time of every evaluation are as before, and so are the hubs and the participants,
  whatever the number of votes now is.
\<close>

theorem submit_vote_only_records_the_vote:
  assumes "success (fst (submit_vote e s eid u v))"
  shows "\<exists>j. get_by_evaluation_and_user s eid u = Some j
       \<and> evaluators (snd (submit_vote e s eid u v)) = map (cast e (j_id j) v) (evaluators s)
       \<and> evaluations (snd (submit_vote e s eid u v))
           = map (\<lambda>r. if ev_id r = eid
                       then r\<lparr>ev_true_votes := fst (get_votes (snd (submit_vote e s eid u v)) eid),
                              ev_false_votes := snd (get_votes (snd (submit_vote e s eid u v)) eid)\<rparr>
                       else r) (evaluations s)
       \<and> map ev_status (evaluations (snd (submit_vote e s eid u v))) = map ev_status (evaluations s)
       \<and> map ev_final_result (evaluations (snd (submit_vote e s eid u v)))
           = map ev_final_result (evaluations s)
       \<and> map ev_completed_at (evaluations (snd (submit_vote e s eid u v)))
           = map ev_completed_at (evaluations s)
       \<and> hubs (snd (submit_vote e s eid u v)) = hubs s
       \<and> participants (snd (submit_vote e s eid u v)) = participants s"
proof -
  from submit_vote_success_cases[OF assms] obtain ev h j where
    c: "evaluation_get s eid = Some ev" "hub_get s (ev_challenge_hub_id ev) = Some h"
       "\<not> ineligible e s h u" "get_by_evaluation_and_user s eid u = Some j" "\<not> truthy (j_vote j)"
    by blast
  note a = submit_vote_accepts[OF c, of v]
  have g: "get_votes (s\<lparr>evaluators := map (cast e (j_id j) v) (evaluators s)\<rparr>) eid
           = get_votes (snd (submit_vote e s eid u v)) eid"
    by (rule get_votes_cong) (simp add: a(2))
  have ev: "evaluations (snd (submit_vote e s eid u v))
           = map (\<lambda>r. if ev_id r = eid
                       then r\<lparr>ev_true_votes := fst (get_votes (snd (submit_vote e s eid u v)) eid),
                              ev_false_votes := snd (get_votes (snd (submit_vote e s eid u v)) eid)\<rparr>
                       else r) (evaluations s)"
    using a(3) unfolding g .
  have st: "map ev_status (evaluations (snd (submit_vote e s eid u v))) = map ev_status (evaluations s)"
    and fr: "map ev_final_result (evaluations (snd (submit_vote e s eid u v)))
           = map ev_final_result (evaluations s)"
    and ca: "map ev_completed_at (evaluations (snd (submit_vote e s eid u v)))
           = map ev_completed_at (evaluations s)"
    unfolding a(3) by (simp_all add: comp_def)
  show ?thesis
    using c(4) a(2,4,5) ev st fr ca by blast
qed

lemma demo_J3:
  "\<not> ineligible demo_env demo_store demo_hub ''J3''"
  "get_by_evaluation_and_user demo_store ''E1'' ''J3'' = Some (demo_juror ''K3'' ''J3'' None)"
  "\<not> truthy (j_vote (demo_juror ''K3'' ''J3'' None))"
  by (simp_all add: ineligible_def get_by_evaluation_and_user_def
      demo_store_def demo_hub_def demo_env_def demo_juror_def)

lemma demo_cast:
  "map j_vote (map (cast demo_env (j_id (demo_juror ''K3'' ''J3'' None)) v) (evaluators demo_store))
   = [Some ''true'', Some ''true'', Some (lower v)]"
  by (simp add: cast_def demo_store_def demo_juror_def)

theorem submit_vote_only_records_the_vote_witness:
  "success (fst (submit_vote demo_env demo_store ''E1'' ''J3'' ''false''))
   \<and> map j_vote (evaluators (snd (submit_vote demo_env demo_store ''E1'' ''J3'' ''false'')))
       = [Some ''true'', Some ''true'', Some ''false'']
   \<and> map ev_status (evaluations (snd (submit_vote demo_env demo_store ''E1'' ''J3'' ''false'')))
       = [''evaluating'']
   \<and> map ev_final_result (evaluations (snd (submit_vote demo_env demo_store ''E1'' ''J3'' ''false'')))
       = [None]
   \<and> map ev_completed_at (evaluations (snd (submit_vote demo_env demo_store ''E1'' ''J3'' ''false'')))
       = [None]"
proof -
  have s: "success (fst (submit_vote demo_env demo_store ''E1'' ''J3'' ''false''))"
    using submit_vote_accepts(1)[OF demo_get_E1 demo_get_H1 demo_J3, of "''false''"] by simp
  have l: "lower ''false'' = ''false''"
    by code_simp
  have v: "map j_vote (evaluators (snd (submit_vote demo_env demo_store ''E1'' ''J3'' ''false'')))
       = [Some ''true'', Some ''true'', Some ''false'']"
    using submit_vote_only_records_the_vote[OF s] demo_J3(2) demo_cast[of "''false''"] l by auto
  have o: "map ev_status (evaluations demo_store) = [''evaluating'']"
    "map ev_final_result (evaluations demo_store) = [None]"
    "map ev_completed_at (evaluations demo_store) = [None]"
    by (simp_all add: demo_store_def demo_evaluation_def)
  show ?thesis
    using s v o submit_vote_only_records_the_vote[OF s] by auto
qed

section \<open>submit_vote does not validate the vote\<close>

lemma find_map_preserved:
  assumes "\<And>x. P (f x) = P x"
  shows "find P (map f xs) = map_option f (find P xs)"
  by (induction xs) (auto simp: assms)

lemma count_votes_cast:
  assumes "lower v \<noteq> w"
  shows "length (filter (\<lambda>r. j_vote r = Some w)
                  (filter (\<lambda>r. j_evaluation_id r = i) (map (cast e k v) xs)))
         = length (filter (\<lambda>r. j_evaluation_id r = i \<and> j_id r \<noteq> k \<and> j_vote r = Some w) xs)"
  using assms by (induction xs) (auto simp: cast_def)

lemma get_votes_cast:
  assumes "lower v \<noteq> ''true''" and "lower v \<noteq> ''false''"
  shows "get_votes (s\<lparr>evaluators := map (cast e k v) (evaluators s)\<rparr>) i
         = (votes_of_others s i k ''true'', votes_of_others s i k ''false'')"
  unfolding get_votes_def list_by_evaluation_def votes_of_others_def
  using count_votes_cast[OF assms(1), of i e k "evaluators s"]
    count_votes_cast[OF assms(2), of i e k "evaluators s"]
  by simp

text \<open>
  C10, as the code has it. \<open>submit_vote\<close> does not check the vote value. For a
  registered, eligible juror who has not voted yet the call succeeds whatever the vote
  argument is and stores its lower-cased form in the juror's row. When the lower-cased
  argument is neither \<open>true\<close> nor \<open>false\<close>, the evaluation's running tallies are
  overwritten with the numbers of \<open>true\<close> and of \<open>false\<close> votes among the other
  evaluator rows of the evaluation: the new vote counts for neither tally.
\<close>

theorem submit_vote_stores_any_value:
  assumes "evaluation_get s eid = Some ev"
      and "hub_get s (ev_challenge_hub_id ev) = Some h"
      and "\<not> ineligible e s h u"
      and "get_by_evaluation_and_user s eid u = Some j"
      and "\<not> truthy (j_vote j)"
  shows "fst (submit_vote e s eid u v) = VoteSaved v
       \<and> success (fst (submit_vote e s eid u v))
       \<and> evaluators (snd (submit_vote e s eid u v)) = map (cast e (j_id j) v) (evaluators s)
       \<and> get_by_evaluation_and_user (snd (submit_vote e s eid u v)) eid u
           = Some (j\<lparr>j_vote := Some (lower v), j_voted_at := Some (clock e 0)\<rparr>)
       \<and> (lower v \<noteq> ''true'' \<and> lower v \<noteq> ''false''
           \<longrightarrow> evaluation_get (snd (submit_vote e s eid u v)) eid
                 = Some (ev\<lparr>ev_true_votes := votes_of_others s eid (j_id j) ''true'',
                            ev_false_votes := votes_of_others s eid (j_id j) ''false''\<rparr>))"
proof -
  note a = submit_vote_accepts[OF assms, of v]
  have p: "(j_evaluation_id (cast e k v x) = eid \<and> j_user_id (cast e k v x) = u)
           = (j_evaluation_id x = eid \<and> j_user_id x = u)" for k x
    by (simp add: cast_def)
  have g: "get_by_evaluation_and_user (snd (submit_vote e s eid u v)) eid u
           = Some (j\<lparr>j_vote := Some (lower v), j_voted_at := Some (clock e 0)\<rparr>)"
    unfolding get_by_evaluation_and_user_def a(2)
    using assms(4) find_map_preserved[of "\<lambda>r. j_evaluation_id r = eid \<and> j_user_id r = u"
        "cast e (j_id j) v" "evaluators s", OF p]
    by (simp add: get_by_evaluation_and_user_def cast_def)
  have t: "evaluation_get (snd (submit_vote e s eid u v)) eid
           = Some (ev\<lparr>ev_true_votes := votes_of_others s eid (j_id j) ''true'',
                      ev_false_votes := votes_of_others s eid (j_id j) ''false''\<rparr>)"
    if "lower v \<noteq> ''true''" and "lower v \<noteq> ''false''"
    unfolding evaluation_get_def a(3) get_votes_cast[OF that]
    by (subst find_map_same) (use assms(1) in \<open>simp_all add: evaluation_get_def\<close>)
  show ?thesis
    using a(1,2) g t by simp
qed

lemma demo_others:
  "votes_of_others demo_store ''E1'' (j_id (demo_juror ''K3'' ''J3'' None)) ''true'' = 2"
  "votes_of_others demo_store ''E1'' (j_id (demo_juror ''K3'' ''J3'' None)) ''false'' = 0"
  by (simp_all add: votes_of_others_def demo_store_def demo_juror_def)

theorem submit_vote_stores_any_value_witness:
  "\<not> ineligible demo_env demo_store demo_hub ''J3''
   \<and> \<not> truthy (j_vote (demo_juror ''K3'' ''J3'' None))
   \<and> lower ''Maybe'' \<noteq> ''true'' \<and> lower ''Maybe'' \<noteq> ''false''
   \<and> fst (submit_vote demo_env demo_store ''E1'' ''J3'' ''Maybe'') = VoteSaved ''Maybe''
   \<and> map_option j_vote
        (get_by_evaluation_and_user (snd (submit_vote demo_env demo_store ''E1'' ''J3'' ''Maybe''))
           ''E1'' ''J3'')
       = Some (Some ''maybe'')
   \<and> evaluation_get (snd (submit_vote demo_env demo_store ''E1'' ''J3'' ''Maybe'')) ''E1''
       = Some (demo_evaluation\<lparr>ev_true_votes := 2, ev_false_votes := 0\<rparr>)"
proof -
  have l: "lower ''Maybe'' = ''maybe''"
    by code_simp
  show ?thesis
    using submit_vote_stores_any_value[OF demo_get_E1 demo_get_H1 demo_J3, of "''Maybe''"]
      demo_J3(1,3) demo_others
    by (simp add: l)
qed

lemma demo_J1_leaves:
  "fst (toggle_juror demo_env demo_store ''E1'' ''J1'') = LeftJury 2"
  "evaluators (snd (toggle_juror demo_env demo_store ''E1'' ''J1''))
   = [demo_juror ''K2'' ''J2'' (Some ''true''), demo_juror ''K3'' ''J3'' None]"
  "evaluations (snd (toggle_juror demo_env demo_store ''E1'' ''J1'')) = [demo_evaluation]"
  "hubs (snd (toggle_juror demo_env demo_store ''E1'' ''J1'')) = hubs demo_store"
  "participants (snd (toggle_juror demo_env demo_store ''E1'' ''J1'')) = participants demo_store"
  by (simp_all add: toggle_juror_def Let_def evaluation_get_def hub_get_def participant_list_def
      get_by_evaluation_and_user_def count_evaluators_def list_by_evaluation_def
      evaluator_delete_def demo_store_def demo_evaluation_def demo_hub_def demo_hub2_def
      demo_env_def demo_juror_def)

lemma demo_left_J3:
  "evaluation_get (snd (toggle_juror demo_env demo_store ''E1'' ''J1'')) ''E1'' = Some demo_evaluation"
  "hub_get (snd (toggle_juror demo_env demo_store ''E1'' ''J1'')) (ev_challenge_hub_id demo_evaluation)
   = Some demo_hub"
  "\<not> ineligible demo_env (snd (toggle_juror demo_env demo_store ''E1'' ''J1'')) demo_hub ''J3''"
  "get_by_evaluation_and_user (snd (toggle_juror demo_env demo_store ''E1'' ''J1'')) ''E1'' ''J3''
   = Some (demo_juror ''K3'' ''J3'' None)"
  unfolding evaluation_get_def hub_get_def ineligible_def get_by_evaluation_and_user_def
    demo_J1_leaves
  by (simp_all add: demo_store_def demo_evaluation_def demo_hub_def demo_hub2_def
      demo_env_def demo_juror_def)

text \<open>
  The claim as stated fails in both parts. Juror \<open>J3\<close>, registered, eligible and
  without a vote, submits \<open>maybe\<close>: the call succeeds and \<open>maybe\<close> is stored as the
  juror's vote. And after juror \<open>J1\<close>, who voted \<open>true\<close>, has left the pool (the stored
  tallies are still 2 and 0), the same \<open>maybe\<close> of \<open>J3\<close> changes the stored tallies
  to 1 and 0.
\<close>

theorem submit_vote_persists_other_value_counterexample:
  "map j_user_id (evaluators demo_store) = [''J1'', ''J2'', ''J3'']
   \<and> map j_vote (evaluators demo_store) = [Some ''true'', Some ''true'', None]
   \<and> lower ''maybe'' \<noteq> ''true'' \<and> lower ''maybe'' \<noteq> ''false''
   \<and> fst (submit_vote demo_env demo_store ''E1'' ''J3'' ''maybe'') = VoteSaved ''maybe''
   \<and> map j_vote (evaluators (snd (submit_vote demo_env demo_store ''E1'' ''J3'' ''maybe'')))
       = [Some ''true'', Some ''true'', Some ''maybe'']
   \<and> fst (toggle_juror demo_env demo_store ''E1'' ''J1'') = LeftJury 2
   \<and> map ev_true_votes (evaluations (snd (toggle_juror demo_env demo_store ''E1'' ''J1''))) = [2]
   \<and> map ev_false_votes (evaluations (snd (toggle_juror demo_env demo_store ''E1'' ''J1''))) = [0]
   \<and> fst (submit_vote demo_env (snd (toggle_juror demo_env demo_store ''E1'' ''J1''))
            ''E1'' ''J3'' ''maybe'') = VoteSaved ''maybe''
   \<and> map ev_true_votes
        (evaluations (snd (submit_vote demo_env (snd (toggle_juror demo_env demo_store ''E1'' ''J1''))
                             ''E1'' ''J3'' ''maybe''))) = [1]
   \<and> map ev_false_votes
        (evaluations (snd (submit_vote demo_env (snd (toggle_juror demo_env demo_store ''E1'' ''J1''))
                             ''E1'' ''J3'' ''maybe''))) = [0]"
proof -
  have l: "lower ''maybe'' = ''maybe''"
    by code_simp
  have o: "map j_user_id (evaluators demo_store) = [''J1'', ''J2'', ''J3'']"
    "map j_vote (evaluators demo_store) = [Some ''true'', Some ''true'', None]"
    by (simp_all add: demo_store_def demo_juror_def)
  note a = submit_vote_accepts[OF demo_get_E1 demo_get_H1 demo_J3, of "''maybe''"]
  have first: "fst (submit_vote demo_env demo_store ''E1'' ''J3'' ''maybe'') = VoteSaved ''maybe''
   \<and> map j_vote (evaluators (snd (submit_vote demo_env demo_store ''E1'' ''J3'' ''maybe'')))
       = [Some ''true'', Some ''true'', Some ''maybe'']"
    unfolding a(1) a(2) demo_cast l by simp
  note b = submit_vote_accepts[OF demo_left_J3 demo_J3(3), of "''maybe''"]
  have before: "map ev_true_votes (evaluations (snd (toggle_juror demo_env demo_store ''E1'' ''J1''))) = [2]"
    "map ev_false_votes (evaluations (snd (toggle_juror demo_env demo_store ''E1'' ''J1''))) = [0]"
    unfolding demo_J1_leaves by (simp_all add: demo_evaluation_def)
  have after: "map ev_true_votes
        (evaluations (snd (submit_vote demo_env (snd (toggle_juror demo_env demo_store ''E1'' ''J1''))
                             ''E1'' ''J3'' ''maybe''))) = [1]"
    "map ev_false_votes
        (evaluations (snd (submit_vote demo_env (snd (toggle_juror demo_env demo_store ''E1'' ''J1''))
                             ''E1'' ''J3'' ''maybe''))) = [0]"
    unfolding b(3) demo_J1_leaves
    by (simp_all add: get_votes_def list_by_evaluation_def cast_def l demo_evaluation_def
        demo_juror_def)
  show ?thesis
    using o l first demo_J1_leaves(1) b(1) before after by simp
qed

section \<open>The membership invariant is kept\<close>

text \<open>
  The uniqueness of the pair (evaluation, user), assumed of the store in the write-once
  property, is kept by the two operations that write evaluator rows.
\<close>

lemma toggle_juror_keeps_unique_membership:
  assumes "unique_membership s"
  shows "unique_membership (snd (toggle_juror e s eid u))"
proof -
  let ?s' = "snd (toggle_juror e s eid u)"
  let ?k = "\<lambda>r. (j_evaluation_id r, j_user_id r)"
  consider (same) "evaluators ?s' = evaluators s"
    | (left) k where "evaluators ?s' = filter (\<lambda>r. j_id r \<noteq> k) (evaluators s)"
    | (joined) "get_by_evaluation_and_user s eid u = None"
        "evaluators ?s' = evaluators s @ [new_juror e eid u]"
    using toggle_juror_evaluators[of e s eid u] by auto
  then show ?thesis
  proof cases
    case same
    with assms show ?thesis by (simp add: unique_membership_def)
  next
    case left
    with assms show ?thesis by (simp add: unique_membership_def distinct_map_filter)
  next
    case joined
    have "?k (new_juror e eid u) \<notin> ?k ` set (evaluators s)"
      using joined(1) by (auto simp: get_by_evaluation_and_user_def find_None_iff new_juror_def)
    with assms joined(2) show ?thesis by (simp add: unique_membership_def)
  qed
qed

lemma submit_vote_keeps_unique_membership:
  assumes "unique_membership s"
  shows "unique_membership (snd (submit_vote e s eid u v))"
proof (cases "success (fst (submit_vote e s eid u v))")
  case True
  from submit_vote_success_cases[OF True] obtain ev h j where
    c: "evaluation_get s eid = Some ev" "hub_get s (ev_challenge_hub_id ev) = Some h"
       "\<not> ineligible e s h u" "get_by_evaluation_and_user s eid u = Some j" "\<not> truthy (j_vote j)"
    by blast
  have "evaluators (snd (submit_vote e s eid u v)) = map (cast e (j_id j) v) (evaluators s)"
    by (rule submit_vote_accepts(2)[OF c])
  moreover have "(\<lambda>r. (j_evaluation_id r, j_user_id r)) \<circ> cast e k v
                 = (\<lambda>r. (j_evaluation_id r, j_user_id r))" for k
    by (auto simp: cast_def)
  ultimately show ?thesis
    using assms by (simp add: unique_membership_def)
next
  case False
  then show ?thesis
    using assms by (simp add: submit_vote_failure_keeps_store)
qed

section \<open>Two joins racing for the third seat\<close>

text \<open>
  Run by itself, the join branch of \<open>toggle_juror\<close> is its two parts one after the
  other on the same store.
\<close>

lemma toggle_juror_join_split:
  assumes "join_reads e s eid u = Some (ev, h, c)"
  shows "toggle_juror e s eid u = join_after_count e s ev h eid u c"
  using assms unfolding join_reads_def toggle_juror_def join_after_count_def Let_def
  by (auto split: option.splits if_splits)

lemma demo_race_reads:
  "join_reads demo_env demo_two_jurors ''E1'' ''U8'' = Some (demo_evaluation, demo_hub, 2)"
  "join_reads demo_env2 demo_two_jurors ''E1'' ''U9'' = Some (demo_evaluation, demo_hub, 2)"
  by (simp_all add: join_reads_def Let_def evaluation_get_def hub_get_def participant_list_def
      get_by_evaluation_and_user_def count_evaluators_def list_by_evaluation_def
      demo_two_jurors_def demo_store_def demo_evaluation_def demo_hub_def demo_hub2_def
      demo_env_def demo_env2_def demo_juror_def)

lemma demo_race_first:
  "fst (join_after_count demo_env demo_two_jurors demo_evaluation demo_hub ''E1'' ''U8'' 2)
   = JoinedJury 3 True"
  "evaluators (snd (join_after_count demo_env demo_two_jurors demo_evaluation demo_hub ''E1'' ''U8'' 2))
   = [demo_juror ''K1'' ''J1'' (Some ''true''), demo_juror ''K2'' ''J2'' (Some ''true''),
      new_juror demo_env ''E1'' ''U8'']"
  "InviteUsers ''CEVAL'' [''J1'', ''J2'', ''U8'']
   \<in> set (effects (snd (join_after_count demo_env demo_two_jurors demo_evaluation demo_hub
                          ''E1'' ''U8'' 2)))"
  by (simp_all add: join_after_count_def Let_def batch_invite_def dm_def call_def
      evaluator_create_def list_by_evaluation_def new_juror_def
      demo_two_jurors_def demo_store_def demo_evaluation_def demo_hub_def
      demo_env_def demo_juror_def)

text \<open>
  C9 on the code. The capacity check and the insertion of \<open>toggle_juror\<close> are two
  separate steps (the count is read, then the row is created), and \<open>is_full\<close> is
  computed from the count read before the insertion. With two jurors in the pool of
  \<open>E1\<close>, let \<open>U8\<close> and \<open>U9\<close> both finish their reads before either writes: each has
  read the count 2, each inserts its row, each is told it is the third and that the
  pool is full, each performs the batch invite, and the pool holds four jurors. Run one
  after the other, the second caller is answered "pool full".
\<close>

theorem racing_joins_both_fill_the_pool:
  "join_reads demo_env demo_two_jurors ''E1'' ''U8'' = Some (demo_evaluation, demo_hub, 2)
   \<and> join_reads demo_env2 demo_two_jurors ''E1'' ''U9'' = Some (demo_evaluation, demo_hub, 2)
   \<and> fst (join_after_count demo_env demo_two_jurors demo_evaluation demo_hub ''E1'' ''U8'' 2)
       = JoinedJury 3 True
   \<and> fst (join_after_count demo_env2
            (snd (join_after_count demo_env demo_two_jurors demo_evaluation demo_hub ''E1'' ''U8'' 2))
            demo_evaluation demo_hub ''E1'' ''U9'' 2)
       = JoinedJury 3 True
   \<and> count_evaluators
        (snd (join_after_count demo_env2
               (snd (join_after_count demo_env demo_two_jurors demo_evaluation demo_hub ''E1'' ''U8'' 2))
               demo_evaluation demo_hub ''E1'' ''U9'' 2)) ''E1''
       = 4
   \<and> InviteUsers ''CEVAL'' [''J1'', ''J2'', ''U8'']
       \<in> set (effects
            (snd (join_after_count demo_env2
               (snd (join_after_count demo_env demo_two_jurors demo_evaluation demo_hub ''E1'' ''U8'' 2))
               demo_evaluation demo_hub ''E1'' ''U9'' 2)))
   \<and> InviteUsers ''CEVAL'' [''J1'', ''J2'', ''U8'', ''U9'']
       \<in> set (effects
            (snd (join_after_count demo_env2
               (snd (join_after_count demo_env demo_two_jurors demo_evaluation demo_hub ''E1'' ''U8'' 2))
               demo_evaluation demo_hub ''E1'' ''U9'' 2)))
   \<and> fst (toggle_juror demo_env2 (snd (toggle_juror demo_env demo_two_jurors ''E1'' ''U8''))
            ''E1'' ''U9'')
       = JuryFull"
proof -
  let ?s1 = "snd (join_after_count demo_env demo_two_jurors demo_evaluation demo_hub ''E1'' ''U8'' 2)"
  let ?s2 = "snd (join_after_count demo_env2 ?s1 demo_evaluation demo_hub ''E1'' ''U9'' 2)"
  have r2: "fst (join_after_count demo_env2 ?s1 demo_evaluation demo_hub ''E1'' ''U9'' 2)
            = JoinedJury 3 True"
    by (simp add: join_after_count_def Let_def)
  have e2: "evaluators ?s2 = evaluators ?s1 @ [new_juror demo_env2 ''E1'' ''U9'']"
    by (simp add: join_after_count_def Let_def new_juror_def)
  have c2: "count_evaluators ?s2 ''E1'' = 4"
    unfolding count_evaluators_def list_by_evaluation_def e2 demo_race_first(2)
    by (simp add: demo_juror_def new_juror_def)
  have l2: "map j_user_id (list_by_evaluation
              (dm demo_env2 ''U9'' m
                 (evaluator_create ?s1 (new_juror demo_env2 ''E1'' ''U9''))) ''E1'')
            = [''J1'', ''J2'', ''U8'', ''U9'']" for m
    unfolding list_by_evaluation_def
    by (simp add: demo_race_first(2) demo_juror_def new_juror_def)
  have i2: "InviteUsers ''CEVAL'' [''J1'', ''J2'', ''U8'', ''U9''] \<in> set (effects ?s2)"
    unfolding join_after_count_def[of demo_env2] Let_def batch_invite_def
    using l2 by (simp add: new_juror_def dm_def call_def demo_evaluation_def demo_env_def
        demo_env2_def)
  have k2: "set (effects ?s1) \<subseteq> set (effects ?s2)"
    unfolding join_after_count_def[of demo_env2] Let_def batch_invite_def
    using l2 by (auto simp: new_juror_def dm_def call_def evaluator_create_def
        demo_evaluation_def demo_env_def demo_env2_def)
  have i1: "InviteUsers ''CEVAL'' [''J1'', ''J2'', ''U8''] \<in> set (effects ?s2)"
    using demo_race_first(3) k2 by blast
  have t1: "toggle_juror demo_env demo_two_jurors ''E1'' ''U8''
            = join_after_count demo_env demo_two_jurors demo_evaluation demo_hub ''E1'' ''U8'' 2"
    by (rule toggle_juror_join_split) (rule demo_race_reads(1))
  have q: "fst (toggle_juror demo_env2 ?s1 ''E1'' ''U9'') = JuryFull"
  proof -
    have "evaluation_get ?s1 ''E1'' = Some demo_evaluation"
      "hub_get ?s1 (ev_challenge_hub_id demo_evaluation) = Some demo_hub"
      using demo_two_get
      by (simp_all add: evaluation_get_def hub_get_def join_after_count_def Let_def)
    moreover have "\<not> ineligible demo_env2 ?s1 demo_hub ''U9''"
      by (simp add: ineligible_def join_after_count_def Let_def demo_two_jurors_def
          demo_store_def demo_hub_def demo_env_def demo_env2_def)
    moreover have "get_by_evaluation_and_user ?s1 ''E1'' ''U9'' = None"
      unfolding get_by_evaluation_and_user_def demo_race_first(2)
      by (simp add: demo_juror_def new_juror_def)
    moreover have "count_evaluators ?s1 ''E1'' \<ge> 3"
      unfolding count_evaluators_def list_by_evaluation_def demo_race_first(2)
      by (simp add: demo_juror_def new_juror_def)
    ultimately show ?thesis
      using toggle_juror_full[of ?s1 "''E1''" demo_evaluation demo_hub demo_env2 "''U9''"]
      by simp
  qed
  show ?thesis
    using demo_race_reads demo_race_first(1) r2 c2 i1 i2 q unfolding t1 by simp
qed

end
